theory Spec2Isabelle
  imports Complex_Main
begin

text \<open>
  A shallow embedding of \<^verbatim>\<open>blender/generate_cell.py\<close>, the script that builds an
  animal cell model in Blender, and the verification of its specification's claims.

  Three things of the Python program are made explicit. Floats are idealised as
  real numbers. The module-level random generator is a value threaded through
  every function that draws from it. The Blender file, which the script changes
  through \<^verbatim>\<open>bpy\<close>, is a list of objects and a list of collections that every
  generator takes and returns.

  Of Blender, the model keeps what the script sets on an object: its name, its
  data, its material slots, the collections it is linked to, its transform and its
  modifiers; and of a collection its name and whether it is linked to the scene.
  What only the renderer reads (shading, tessellation, the render engine) and the
  messages the script prints are left out.
\<close>

chapter \<open>The model\<close>

section \<open>Vectors\<close>

text \<open>
  The script builds its geometry with \<^verbatim>\<open>mathutils.Vector\<close>; a three-component
  vector is a triple of reals.
\<close>

type_synonym vec = "real \<times> real \<times> real"

fun vadd :: "vec \<Rightarrow> vec \<Rightarrow> vec" where
  "vadd (a, b, c) (d, e, f) = (a + d, b + e, c + f)"

fun vsub :: "vec \<Rightarrow> vec \<Rightarrow> vec" where
  "vsub (a, b, c) (d, e, f) = (a - d, b - e, c - f)"

fun smult :: "real \<Rightarrow> vec \<Rightarrow> vec" where
  "smult k (a, b, c) = (k * a, k * b, k * c)"

fun vdiv :: "vec \<Rightarrow> real \<Rightarrow> vec" where
  "vdiv (a, b, c) k = (a / k, b / k, c / k)"

fun vdot :: "vec \<Rightarrow> vec \<Rightarrow> real" where
  "vdot (a, b, c) (d, e, f) = a * d + b * e + c * f"

fun vec_x :: "vec \<Rightarrow> real" where
  "vec_x (a, b, c) = a"

fun vec_y :: "vec \<Rightarrow> real" where
  "vec_y (a, b, c) = b"

fun vec_z :: "vec \<Rightarrow> real" where
  "vec_z (a, b, c) = c"

text \<open>\<^verbatim>\<open>Vector.length\<close>: the Euclidean norm.\<close>

fun vlength :: "vec \<Rightarrow> real" where
  "vlength (a, b, c) = sqrt (a\<^sup>2 + b\<^sup>2 + c\<^sup>2)"

text \<open>
  \<^verbatim>\<open>Vector.normalized()\<close>: a unit-length copy. Normalising a vector whose
  components are all zero has no effect: it stays the zero vector.
\<close>

definition normalized :: "vec \<Rightarrow> vec" where
  "normalized v = (if vlength v = 0 then v else smult (1 / vlength v) v)"

definition origin :: vec where
  "origin = (0, 0, 0)"

text \<open>
  A rotation given by Euler angles in Blender's default order \<open>XYZ\<close>: about the
  x axis first, then about y, then about z.
\<close>

fun rot_x :: "real \<Rightarrow> vec \<Rightarrow> vec" where
  "rot_x a (x, y, z) = (x, y * cos a - z * sin a, y * sin a + z * cos a)"

fun rot_y :: "real \<Rightarrow> vec \<Rightarrow> vec" where
  "rot_y b (x, y, z) = (x * cos b + z * sin b, y, z * cos b - x * sin b)"

fun rot_z :: "real \<Rightarrow> vec \<Rightarrow> vec" where
  "rot_z c (x, y, z) = (x * cos c - y * sin c, x * sin c + y * cos c, z)"

fun euler_rotate :: "vec \<Rightarrow> vec \<Rightarrow> vec" where
  "euler_rotate (a, b, c) v = rot_z c (rot_y b (rot_x a v))"

datatype py_error = TypeError

text \<open>
  \<^verbatim>\<open>Vector.rotate(other)\<close> rotates the vector it is called on in place and returns
  \<^verbatim>\<open>None\<close>. The model returns the pair of the receiver after the call and the value
  of the call expression; a Python value that is a vector or \<^verbatim>\<open>None\<close> is a
  \<^typ>\<open>vec option\<close>. The rotation, in the script the matrix of the Euler angles of an
  object, is given by these angles.
\<close>

definition vector_rotate :: "vec \<Rightarrow> vec \<Rightarrow> vec \<times> vec option" where
  "vector_rotate v euler = (euler_rotate euler v, None)"

text \<open>
  \<^verbatim>\<open>v += x\<close> on a vector: the sum when \<^verbatim>\<open>x\<close> is a vector, and a
  \<^verbatim>\<open>TypeError\<close> otherwise.
\<close>

fun vector_iadd :: "vec \<Rightarrow> vec option \<Rightarrow> py_error + vec" where
  "vector_iadd v (Some u) = Inr (vadd v u)"
| "vector_iadd v None = Inl TypeError"

section \<open>The random source\<close>

text \<open>
  Python's module-level generator is a stream of uniform variates and a cursor into
  it. \<^verbatim>\<open>random.random()\<close> returns the next variate, a float in the half-open
  interval from 0 to 1, and advances the cursor. Seeding the generator fixes the
  stream.
\<close>

record rng =
  draws :: "nat \<Rightarrow> real"
  cursor :: nat

definition valid_rng :: "rng \<Rightarrow> bool" where
  "valid_rng g = (\<forall>n. 0 \<le> draws g n \<and> draws g n < 1)"

definition random_random :: "rng \<Rightarrow> real \<times> rng" where
  "random_random g = (draws g (cursor g), g\<lparr>cursor := Suc (cursor g)\<rparr>)"

text \<open>\<^verbatim>\<open>random.uniform(a, b)\<close> is \<^verbatim>\<open>a + (b - a) * random()\<close>.\<close>

definition random_uniform :: "real \<Rightarrow> real \<Rightarrow> rng \<Rightarrow> real \<times> rng" where
  "random_uniform a b g = (case random_random g of (u, g') \<Rightarrow> (a + (b - a) * u, g'))"

text \<open>
  \<^verbatim>\<open>random.choice(seq)\<close> picks one element of a non-empty sequence with the
  generator. The model takes the index from the next uniform variate, so that every
  sequence of picks is the result of some stream.
\<close>

definition random_choice :: "'a list \<Rightarrow> rng \<Rightarrow> 'a \<times> rng" where
  "random_choice xs g =
     (case random_random g of (u, g') \<Rightarrow> (xs ! nat \<lfloor>u * real (length xs)\<rfloor>, g'))"

text \<open>
  \<^verbatim>\<open>random_point_in_sphere(radius)\<close>, lines 76-88: three draws, \<open>u\<close>, \<open>v\<close> and the
  radial variate, in this order.
\<close>

definition random_point_in_sphere :: "real \<Rightarrow> rng \<Rightarrow> vec \<times> rng" where
  "random_point_in_sphere radius g =
     (case random_random g of (u, g1) \<Rightarrow>
      case random_random g1 of (v, g2) \<Rightarrow>
      case random_random g2 of (w, g3) \<Rightarrow>
        let theta = 2 * pi * u;
            phi = arccos (2 * v - 1);
            r = radius * (w powr (1 / 3))
        in ((r * sin phi * cos theta, r * sin phi * sin theta, r * cos phi), g3))"

text \<open>\<^verbatim>\<open>random_point_on_sphere(radius)\<close>, lines 90-101.\<close>

definition random_point_on_sphere :: "real \<Rightarrow> rng \<Rightarrow> vec \<times> rng" where
  "random_point_on_sphere radius g =
     (case random_random g of (u, g1) \<Rightarrow>
      case random_random g1 of (v, g2) \<Rightarrow>
        let theta = 2 * pi * u;
            phi = arccos (2 * v - 1)
        in ((radius * sin phi * cos theta, radius * sin phi * sin theta,
             radius * cos phi), g2))"

text \<open>Concrete streams, for evaluating the model.\<close>

definition zero_rng :: rng where
  "zero_rng = \<lparr>draws = (\<lambda>n. 0), cursor = 0\<rparr>"

definition half_rng :: rng where
  "half_rng = \<lparr>draws = (\<lambda>n. 1 / 2), cursor = 0\<rparr>"

text \<open>
  A stream whose every third variate is \<open>1/8\<close>: the points sampled from it lie at
  half the radius of the sphere, on the x axis.
\<close>

definition inner_rng :: rng where
  "inner_rng = \<lparr>draws = (\<lambda>n. if n mod 3 = 0 then 0 else if n mod 3 = 1 then 1 / 2 else 1 / 8),
                cursor = 0\<rparr>"

text \<open>
  A stream whose fourth variate of every four is \<open>1/2\<close>, the others 0: the stream of a
  network node on the vertical axis, at height 0.
\<close>

definition centre_rng :: rng where
  "centre_rng = \<lparr>draws = (\<lambda>n. if n mod 4 = 3 then 1 / 2 else 0), cursor = 0\<rparr>"

section \<open>Materials\<close>

record material =
  mat_name :: string
  base_color :: vec
  alpha :: real
  roughness :: real
  emission :: "(vec \<times> real) option"
  blend_method :: string

text \<open>
  \<^verbatim>\<open>create_material\<close>, lines 42-74. The optional arguments are written out at every
  call (their defaults are \<open>alpha = 1.0\<close>, \<open>roughness = 0.5\<close>, no emission and
  emission strength \<open>0.0\<close>). The emission inputs of the shader are set only for an
  emission colour with a positive strength; an alpha below one switches the material
  to blended drawing. The material is also entered in \<^verbatim>\<open>bpy.data.materials\<close>,
  which the script does at module level (see \<open>generate_cell\<close> below).
\<close>

definition create_material ::
  "string \<Rightarrow> vec \<Rightarrow> real \<Rightarrow> real \<Rightarrow> vec option \<Rightarrow> real \<Rightarrow> material" where
  "create_material nm color al rough em strength =
     \<lparr>mat_name = nm, base_color = color, alpha = al, roughness = rough,
      emission = (case em of
                    None \<Rightarrow> None
                  | Some e \<Rightarrow> if strength > 0 then Some (e, strength) else None),
      blend_method = (if al < 1 then ''BLEND'' else ''OPAQUE'')\<rparr>"

definition mat_membrane :: material where
  "mat_membrane = create_material ''Membrane'' (0.5, 0.8, 0.6) 0.15 0.1 None 0"

definition mat_nucleus_envelope :: material where
  "mat_nucleus_envelope = create_material ''NuclearEnvelope'' (0.4, 0.3, 0.7) 0.5 0.2 None 0"

definition mat_nucleoplasm :: material where
  "mat_nucleoplasm =
     create_material ''Nucleoplasm'' (0.5, 0.4, 0.8) 0.7 0.4 (Some (0.2, 0.1, 0.3)) 0.3"

definition mat_nucleolus :: material where
  "mat_nucleolus =
     create_material ''Nucleolus'' (0.3, 0.2, 0.5) 1.0 0.6 (Some (0.1, 0.05, 0.15)) 0.5"

definition mat_chromatin :: material where
  "mat_chromatin =
     create_material ''Chromatin'' (0.6, 0.5, 0.9) 0.9 0.5 (Some (0.2, 0.15, 0.3)) 0.2"

definition mat_rough_er :: material where
  "mat_rough_er = create_material ''RoughER'' (0.2, 0.6, 0.8) 0.6 0.3 None 0"

definition mat_smooth_er :: material where
  "mat_smooth_er = create_material ''SmoothER'' (0.3, 0.7, 0.85) 0.5 0.25 None 0"

definition mat_ribosome :: material where
  "mat_ribosome = create_material ''Ribosome'' (0.15, 0.4, 0.6) 1.0 0.6 None 0"

definition mat_mitochondria_outer :: material where
  "mat_mitochondria_outer = create_material ''MitoOuter'' (0.9, 0.4, 0.35) 0.75 0.3 None 0"

definition mat_mitochondria_inner :: material where
  "mat_mitochondria_inner =
     create_material ''MitoInner'' (0.95, 0.5, 0.4) 0.9 0.5 (Some (0.3, 0.1, 0.05)) 0.3"

definition mat_golgi :: material where
  "mat_golgi = create_material ''Golgi'' (0.95, 0.8, 0.3) 0.65 0.3 None 0"

definition mat_vesicle :: material where
  "mat_vesicle = create_material ''Vesicle'' (0.95, 0.85, 0.4) 0.7 0.2 None 0"

definition mat_lysosome :: material where
  "mat_lysosome =
     create_material ''Lysosome'' (0.5, 0.85, 0.3) 0.75 0.4 (Some (0.15, 0.25, 0.1)) 0.2"

definition mat_centriole :: material where
  "mat_centriole = create_material ''Centriole'' (0.85, 0.85, 0.95) 1.0 0.3 None 0"

definition mat_cytoskeleton :: material where
  "mat_cytoskeleton = create_material ''Cytoskeleton'' (0.5, 0.5, 0.6) 0.2 0.5 None 0"

definition script_materials :: "material list" where
  "script_materials =
     [mat_membrane, mat_nucleus_envelope, mat_nucleoplasm, mat_nucleolus, mat_chromatin,
      mat_rough_er, mat_smooth_er, mat_ribosome, mat_mitochondria_outer,
      mat_mitochondria_inner, mat_golgi, mat_vesicle, mat_lysosome, mat_centriole,
      mat_cytoskeleton]"

section \<open>Objects and the scene\<close>

datatype otype = MESH | CURVE | CAMERA | LIGHT

text \<open>
  The data of an object, as far as the script sets it: the radii of a primitive, the
  vertices of the plane that becomes a cisterna, the control points and bevel depth
  of a Bezier curve. Segment and ring counts only set the tessellation and are left
  out.
\<close>

datatype geometry =
    UVSphere real
  | Cylinder real real
  | Torus real real
  | Plane "vec list"
  | Bezier "vec list" real
  | CameraData
  | LightData string real

text \<open>
  An object name is a format template and the numbers filled into it: the f-string
  \<^verbatim>\<open>f"Ribosome_S1C{i}_{r}"\<close> is \<open>(''Ribosome_S1C{}_{}'', [i, r])\<close>.
\<close>

type_synonym obj_name = "string \<times> nat list"

text \<open>
  The collections of the file. \<^verbatim>\<open>bpy.data.collections.new(name)\<close> makes a new
  collection every time it is called, also when a collection of that name exists:
  Blender then gives the new one the first free numeric suffix to the name. So a
  collection is known by its handle, its index in the order of creation, and its name
  is the name that was asked for with a number: \<open>(''Nucleus'', 0)\<close> is \<^verbatim>\<open>Nucleus\<close> and
  \<open>(''Nucleus'', 1)\<close> is \<^verbatim>\<open>Nucleus.001\<close>. A collection shows in the scene once it is
  linked to the collection of the scene, which is always there.
\<close>

datatype coll = SceneCollection | Coll nat

record collection =
  coll_name :: "string \<times> nat"
  in_scene :: bool

definition unique_name :: "string \<Rightarrow> collection list \<Rightarrow> string \<times> nat" where
  "unique_name nm cs =
     (nm, hd (filter (\<lambda>k. (nm, k) \<notin> set (map coll_name cs)) [0..<Suc (length cs)]))"

record object =
  name :: obj_name
  otype :: otype
  geometry :: geometry
  materials :: "material list"
  users_collection :: "coll list"
  location :: vec
  rotation_euler :: vec
  scale :: vec
  modifiers :: "(string \<times> real) list"
  select :: bool

text \<open>
  What the generators read and change: the random generator, the objects of the
  scene in the order of their creation, and the collections. An object handle, the
  value of a Python variable that holds an object, is the object's index in the list.
\<close>

record world =
  rng :: rng
  objects :: "object list"
  collections :: "collection list"

text \<open>A generator that raises leaves the scene as it is at the \<^verbatim>\<open>raise\<close>.\<close>

datatype 'a result = Ok 'a world | Raise py_error world

fun result_world :: "'a result \<Rightarrow> world" where
  "result_world (Ok x w) = w"
| "result_world (Raise e w) = w"

fun raised :: "'a result \<Rightarrow> py_error option" where
  "raised (Ok x w) = None"
| "raised (Raise e w) = Some e"

definition draw :: "(rng \<Rightarrow> 'a \<times> rng) \<Rightarrow> world \<Rightarrow> 'a \<times> world" where
  "draw f w = (case f (rng w) of (x, g) \<Rightarrow> (x, w\<lparr>rng := g\<rparr>))"

text \<open>
  \<^verbatim>\<open>bpy.ops.mesh.primitive_..._add\<close>, \<^verbatim>\<open>camera_add\<close> or \<^verbatim>\<open>light_add\<close>,
  followed by \<^verbatim>\<open>bpy.context.active_object\<close>: a new object with Blender's default
  name, no material, at the given location, selected, and linked to the active
  collection. The script unlinks its objects from the scene's own collection, so that
  collection is taken to be the active one.
\<close>

definition object_add ::
  "otype \<Rightarrow> string \<Rightarrow> geometry \<Rightarrow> vec \<Rightarrow> world \<Rightarrow> nat \<times> world" where
  "object_add ty default_name geom loc w =
     (length (objects w),
      w\<lparr>objects := objects w @
         [\<lparr>name = (default_name, []), otype = ty, geometry = geom, materials = [],
           users_collection = [SceneCollection], location = loc,
           rotation_euler = (0, 0, 0), scale = (1, 1, 1), modifiers = [],
           select = True\<rparr>]\<rparr>)"

definition primitive_add :: "string \<Rightarrow> geometry \<Rightarrow> vec \<Rightarrow> world \<Rightarrow> nat \<times> world" where
  "primitive_add default_name geom loc w = object_add MESH default_name geom loc w"

text \<open>
  \<^verbatim>\<open>bpy.data.curves.new\<close>, a Bezier spline through the given points, and
  \<^verbatim>\<open>bpy.data.objects.new\<close>: a curve object, in no collection yet.
\<close>

definition new_curve_object :: "obj_name \<Rightarrow> vec list \<Rightarrow> real \<Rightarrow> world \<Rightarrow> nat \<times> world" where
  "new_curve_object nm points bevel_depth w =
     (length (objects w),
      w\<lparr>objects := objects w @
         [\<lparr>name = nm, otype = CURVE, geometry = Bezier points bevel_depth, materials = [],
           users_collection = [], location = (0, 0, 0),
           rotation_euler = (0, 0, 0), scale = (1, 1, 1), modifiers = [],
           select = False\<rparr>]\<rparr>)"

text \<open>Assignments to the attributes of the object behind a handle.\<close>

definition upd_object :: "nat \<Rightarrow> (object \<Rightarrow> object) \<Rightarrow> world \<Rightarrow> world" where
  "upd_object h f w = w\<lparr>objects := (objects w)[h := f (objects w ! h)]\<rparr>"

definition set_name :: "nat \<Rightarrow> obj_name \<Rightarrow> world \<Rightarrow> world" where
  "set_name h nm = upd_object h (\<lambda>ob. ob\<lparr>name := nm\<rparr>)"

definition append_material :: "nat \<Rightarrow> material \<Rightarrow> world \<Rightarrow> world" where
  "append_material h m = upd_object h (\<lambda>ob. ob\<lparr>materials := materials ob @ [m]\<rparr>)"

definition set_rotation :: "nat \<Rightarrow> vec \<Rightarrow> world \<Rightarrow> world" where
  "set_rotation h r = upd_object h (\<lambda>ob. ob\<lparr>rotation_euler := r\<rparr>)"

definition set_scale :: "nat \<Rightarrow> vec \<Rightarrow> world \<Rightarrow> world" where
  "set_scale h s = upd_object h (\<lambda>ob. ob\<lparr>scale := s\<rparr>)"

definition add_modifier :: "nat \<Rightarrow> string \<Rightarrow> real \<Rightarrow> world \<Rightarrow> world" where
  "add_modifier h m v = upd_object h (\<lambda>ob. ob\<lparr>modifiers := modifiers ob @ [(m, v)]\<rparr>)"

text \<open>\<^verbatim>\<open>collection.objects.link(ob)\<close> and \<^verbatim>\<open>collection.objects.unlink(ob)\<close>.\<close>

definition link_object :: "coll \<Rightarrow> nat \<Rightarrow> world \<Rightarrow> world" where
  "link_object c h =
     upd_object h (\<lambda>ob. ob\<lparr>users_collection := users_collection ob @ [c]\<rparr>)"

definition unlink_object :: "coll \<Rightarrow> nat \<Rightarrow> world \<Rightarrow> world" where
  "unlink_object c h =
     upd_object h (\<lambda>ob. ob\<lparr>users_collection := remove1 c (users_collection ob)\<rparr>)"

text \<open>
  The recurring tail of the script's object constructions: name the object, append
  its material, link it to the group's collection and unlink it from the scene's.
\<close>

definition into_collection :: "coll \<Rightarrow> nat \<Rightarrow> world \<Rightarrow> world" where
  "into_collection c h w = unlink_object SceneCollection h (link_object c h w)"

text \<open>
  \<^verbatim>\<open>bpy.data.collections.new(name)\<close>, and the pair of it with
  \<^verbatim>\<open>bpy.context.scene.collection.children.link\<close> that opens every generator.
\<close>

definition collections_new :: "string \<Rightarrow> world \<Rightarrow> nat \<times> world" where
  "collections_new nm w =
     (length (collections w),
      w\<lparr>collections := collections w
          @ [\<lparr>coll_name = unique_name nm (collections w), in_scene = False\<rparr>]\<rparr>)"

definition children_link :: "nat \<Rightarrow> world \<Rightarrow> world" where
  "children_link c w =
     w\<lparr>collections := (collections w)[c := (collections w ! c)\<lparr>in_scene := True\<rparr>]\<rparr>"

definition new_scene_collection :: "string \<Rightarrow> world \<Rightarrow> coll \<times> world" where
  "new_scene_collection nm w =
     (case collections_new nm w of (c, w1) \<Rightarrow> (Coll c, children_link c w1))"

text \<open>A \<^verbatim>\<open>for\<close> loop over a range whose body may raise.\<close>

fun for_range :: "(nat \<Rightarrow> world \<Rightarrow> unit result) \<Rightarrow> nat list \<Rightarrow> world \<Rightarrow> unit result" where
  "for_range body [] w = Ok () w"
| "for_range body (i # rest) w =
     (case body i w of
        Raise e w' \<Rightarrow> Raise e w'
      | Ok u w' \<Rightarrow> for_range body rest w')"

section \<open>The organelle generators\<close>

text \<open>
  Every generator returns the collection it fills; the script never uses these
  values, and the model returns the changed world only. The smoothing of the shading
  and the noise texture of the membrane do not enter any claim and are left out.
\<close>

text \<open>
  The block shared by the nucleus spheres, ribosomes, junctions, vesicles and
  lysosomes: add a UV sphere, name it, append its material, move it to the group.
\<close>

definition add_sphere :: "real \<Rightarrow> vec \<Rightarrow> obj_name \<Rightarrow> material \<Rightarrow> coll \<Rightarrow> world \<Rightarrow> world" where
  "add_sphere radius loc nm mat coll w =
     (case primitive_add ''Sphere'' (UVSphere radius) loc w of (h, w1) \<Rightarrow>
        into_collection coll h (append_material h mat (set_name h nm w1)))"

subsection \<open>Membrane, lines 132-151\<close>

definition create_membrane :: "world \<Rightarrow> world" where
  "create_membrane w =
     (case primitive_add ''Sphere'' (UVSphere 3) (0, 0, 0) w of (membrane, w1) \<Rightarrow>
        add_modifier membrane ''Displace'' 0.05
          (append_material membrane mat_membrane
            (set_name membrane (''CellMembrane'', []) w1)))"

subsection \<open>Nucleus, lines 159-215\<close>

definition chromatin_strand :: "coll \<Rightarrow> nat \<Rightarrow> world \<Rightarrow> world" where
  "chromatin_strand nucleus_collection i w =
     (case draw (random_point_in_sphere 0.7) w of (p0, w1) \<Rightarrow>
      case draw (random_point_in_sphere 0.7) w1 of (p1, w2) \<Rightarrow>
      case draw (random_point_in_sphere 0.7) w2 of (p2, w3) \<Rightarrow>
      case draw (random_point_in_sphere 0.7) w3 of (p3, w4) \<Rightarrow>
        let points = map (\<lambda>p. vadd p (0, 0, 0.2)) [p0, p1, p2, p3]
        in case new_curve_object (''Chromatin{}'', [i]) points 0.025 w4 of (curve_obj, w5) \<Rightarrow>
             link_object nucleus_collection curve_obj
               (append_material curve_obj mat_chromatin w5))"

definition create_nucleus :: "world \<Rightarrow> world" where
  "create_nucleus w =
     (case new_scene_collection ''Nucleus'' w of (nucleus_collection, w0) \<Rightarrow>
        let w1 = add_sphere 1.1 (0, 0, 0.2) (''NuclearEnvelope'', []) mat_nucleus_envelope
                   nucleus_collection w0;
            w2 = add_sphere 1.0 (0, 0, 0.2) (''Nucleoplasm'', []) mat_nucleoplasm
                   nucleus_collection w1;
            w3 = add_sphere 0.35 (0.25, 0.15, 0.35) (''Nucleolus'', []) mat_nucleolus
                   nucleus_collection w2
        in fold (chromatin_strand nucleus_collection) [0..<10] w3)"

subsection \<open>Rough endoplasmic reticulum, lines 223-355\<close>

text \<open>
  The vertices of a plane of the given size, cut the given number of times along
  each side: a square grid in the plane \<open>z = 0\<close>, centred at the local origin.
\<close>

definition plane_vertices :: "real \<Rightarrow> nat \<Rightarrow> vec list" where
  "plane_vertices side cuts =
     concat (map (\<lambda>i. map (\<lambda>j. (side * (real i / real (cuts + 1) - 1 / 2),
                                   side * (real j / real (cuts + 1) - 1 / 2), 0))
                          [0..<cuts + 2])
                 [0..<cuts + 2])"

text \<open>The body of the loop over \<^verbatim>\<open>mesh.vertices\<close>, lines 237-254.\<close>

definition deform_vertex :: "vec \<Rightarrow> vec" where
  "deform_vertex co =
     (case co of (x, y, z) \<Rightarrow>
        let curve = 0.15 * (1 - (x * 2)\<^sup>2);
            wave = sin (x * 8) * 0.03 + sin (y * 6) * 0.02;
            edge_dist = max \<bar>x * 2\<bar> \<bar>y * 2\<bar>;
            roll = (if edge_dist > 0.7 then ((edge_dist - 0.7) / 0.3)\<^sup>2 * 0.06 else 0)
        in (x, y, curve + wave + roll))"

definition deform_vertices :: "vec list \<Rightarrow> vec list" where
  "deform_vertices vs = map deform_vertex vs"

fun map_vertices :: "(vec list \<Rightarrow> vec list) \<Rightarrow> geometry \<Rightarrow> geometry" where
  "map_vertices f (Plane vs) = Plane (f vs)"
| "map_vertices f g = g"

definition create_er_cisterna :: "real \<Rightarrow> real \<Rightarrow> vec \<Rightarrow> vec \<Rightarrow> world \<Rightarrow> nat \<times> world" where
  "create_er_cisterna width height loc rotation w =
     (case primitive_add ''Plane'' (Plane (plane_vertices 1 0)) loc w of (cisterna, w1) \<Rightarrow>
        let w2 = set_scale cisterna (width, height, 1) w1;
            w3 = set_rotation cisterna rotation w2;
            w4 = upd_object cisterna
                   (\<lambda>ob. ob\<lparr>geometry := map_vertices (\<lambda>vs. plane_vertices 1 12) (geometry ob)\<rparr>) w3;
            w5 = upd_object cisterna
                   (\<lambda>ob. ob\<lparr>geometry := map_vertices deform_vertices (geometry ob)\<rparr>) w4;
            w6 = add_modifier cisterna ''Solidify'' 0.02 w5
        in (cisterna, append_material cisterna mat_rough_er w6))"

text \<open>
  The three stacks are three copies of one loop with different constants; the
  constants of a stack are collected in a record.
\<close>

record rer_stack =
  stack_base :: vec
  step_x :: real
  step_y :: real
  offset_y :: real
  rot_y :: real
  sheet_width :: real
  sheet_height :: real
  cisterna_name :: string
  ribosome_name :: string
  cisternae :: nat
  ribosomes :: nat
  half_x :: real
  half_y :: real

definition stack1 :: rer_stack where
  "stack1 = \<lparr>stack_base = (1.4, 0.1, 0.3), step_x = 0.06, step_y = 0.1, offset_y = 0.2,
            rot_y = - 0.3, sheet_width = 0.5, sheet_height = 0.3,
            cisterna_name = ''RER_Stack1_Cisterna{}'', ribosome_name = ''Ribosome_S1C{}_{}'',
            cisternae = 5, ribosomes = 20, half_x = 0.4, half_y = 0.25\<rparr>"

definition stack2 :: rer_stack where
  "stack2 = \<lparr>stack_base = (- 0.8, - 0.2, 1.3), step_x = 0.05, step_y = 0.1, offset_y = 0.15,
            rot_y = 1.9, sheet_width = 0.45, sheet_height = 0.28,
            cisterna_name = ''RER_Stack2_Cisterna{}'', ribosome_name = ''Ribosome_S2C{}_{}'',
            cisternae = 4, ribosomes = 15, half_x = 0.35, half_y = 0.22\<rparr>"

definition stack3 :: rer_stack where
  "stack3 = \<lparr>stack_base = (0.5, 0.4, - 1.4), step_x = 0.05, step_y = 0.09, offset_y = 0.1,
            rot_y = 3.8, sheet_width = 0.4, sheet_height = 0.25,
            cisterna_name = ''RER_Stack3_Cisterna{}'', ribosome_name = ''Ribosome_S3C{}_{}'',
            cisternae = 3, ribosomes = 12, half_x = 0.3, half_y = 0.2\<rparr>"

definition cisterna_location :: "rer_stack \<Rightarrow> nat \<Rightarrow> vec" where
  "cisterna_location st i =
     vadd (stack_base st) (step_x st * real i, real i * step_y st - offset_y st, 0)"

text \<open>The \<^verbatim>\<open>location\<close> argument of a ribosome, lines 287-291.\<close>

definition ribosome_location :: "rer_stack \<Rightarrow> vec \<Rightarrow> rng \<Rightarrow> vec \<times> rng" where
  "ribosome_location st loc g =
     (case random_uniform (- half_x st) (half_x st) g of (dx, g1) \<Rightarrow>
      case random_uniform (- half_y st) (half_y st) g1 of (dy, g2) \<Rightarrow>
      case random_choice [- 1, 1] g2 of (side, g3) \<Rightarrow>
        ((vec_x loc + dx, vec_y loc + dy, vec_z loc + 0.025 * side), g3))"

definition rer_ribosome :: "coll \<Rightarrow> rer_stack \<Rightarrow> vec \<Rightarrow> nat \<Rightarrow> nat \<Rightarrow> world \<Rightarrow> world" where
  "rer_ribosome er_collection st loc i r w =
     (case draw (ribosome_location st loc) w of (p, w1) \<Rightarrow>
        add_sphere 0.018 p (ribosome_name st, [i, r]) mat_ribosome er_collection w1)"

definition rer_cisterna :: "coll \<Rightarrow> rer_stack \<Rightarrow> nat \<Rightarrow> world \<Rightarrow> world" where
  "rer_cisterna er_collection st i w =
     (let loc = cisterna_location st i
      in case draw random_random w of (u, w1) \<Rightarrow>
         let rot = (0.1, rot_y st, (u - 0.5) * 0.1)
         in case create_er_cisterna (sheet_width st) (sheet_height st) loc rot w1 of
              (cisterna, w2) \<Rightarrow>
                let w3 = into_collection er_collection cisterna
                           (set_name cisterna (cisterna_name st, [i]) w2)
                in fold (rer_ribosome er_collection st loc i) [0..<ribosomes st] w3)"

definition rer_stack_loop :: "coll \<Rightarrow> rer_stack \<Rightarrow> world \<Rightarrow> world" where
  "rer_stack_loop er_collection st w =
     fold (rer_cisterna er_collection st) [0..<cisternae st] w"

definition create_rough_er :: "world \<Rightarrow> world" where
  "create_rough_er w =
     (case new_scene_collection ''RoughER'' w of (er_collection, w0) \<Rightarrow>
        rer_stack_loop er_collection stack3
          (rer_stack_loop er_collection stack2 (rer_stack_loop er_collection stack1 w0)))"

subsection \<open>Smooth endoplasmic reticulum, lines 363-437\<close>

text \<open>One network node, lines 371-380: four draws.\<close>

definition ser_node :: "rng \<Rightarrow> vec \<times> rng" where
  "ser_node g =
     (case random_random g of (a, g1) \<Rightarrow>
      case random_random g1 of (b, g2) \<Rightarrow>
      case random_random g2 of (c, g3) \<Rightarrow>
      case random_random g3 of (d, g4) \<Rightarrow>
        let theta = a * 2 * pi;
            phi = b * pi;
            r = 1.9 + c * 0.5
        in ((r * sin phi * cos theta, (d - 0.5) * 1.4, r * sin phi * sin theta), g4))"

definition ser_nodes :: "rng \<Rightarrow> vec list \<times> rng" where
  "ser_nodes g =
     fold (\<lambda>i (nodes, g'). case ser_node g' of (p, g'') \<Rightarrow> (nodes @ [p], g''))
       [0..<25] ([], g)"

text \<open>
  The other nodes with their distance from node \<open>i\<close>, sorted by distance; Python's
  sort is stable, as \<^const>\<open>sort_key\<close> is.
\<close>

definition neighbour_distances :: "vec list \<Rightarrow> nat \<Rightarrow> (nat \<times> real) list" where
  "neighbour_distances nodes i =
     sort_key snd
       (map (\<lambda>j. (j, vlength (vsub (nodes ! i) (nodes ! j))))
            (filter (\<lambda>j. j \<noteq> i) [0..<length nodes]))"

text \<open>
  The body of the loop over the three nearest neighbours, lines 391-425. The state
  of the loop is the set \<^verbatim>\<open>connected\<close> (here \<open>conn\<close>) and the world. The jittered midpoint is
  computed and never used, but its three draws advance the generator.
\<close>

definition ser_tube :: "coll \<Rightarrow> vec list \<Rightarrow> nat \<Rightarrow> nat \<times> real \<Rightarrow> (nat \<times> nat) set \<times> world \<Rightarrow> (nat \<times> nat) set \<times> world" where
  "ser_tube ser_collection nodes i jd cw =
     (case jd of (j, distance) \<Rightarrow>
      case cw of (conn, w) \<Rightarrow>
        if distance < 1.2 then
          let key = (min i j, max i j)
          in if key \<notin> conn then
               let start = nodes ! i;
                   finish = nodes ! j
               in case draw (random_uniform (- 0.15) 0.15) w of (mx, w1) \<Rightarrow>
                  case draw (random_uniform (- 0.1) 0.1) w1 of (my, w2) \<Rightarrow>
                  case draw (random_uniform (- 0.15) 0.15) w2 of (mz, w3) \<Rightarrow>
                    let mid = vadd (vdiv (vadd start finish) 2) (mx, my, mz)
                    in case new_curve_object (''SERTube_{}_{}'', [i, j]) [start, finish] 0.03 w3 of
                         (curve_obj, w4) \<Rightarrow>
                           (insert key conn,
                            link_object ser_collection curve_obj
                              (append_material curve_obj mat_smooth_er w4))
             else (conn, w)
        else (conn, w))"

definition ser_connect :: "coll \<Rightarrow> vec list \<Rightarrow> world \<Rightarrow> (nat \<times> nat) set \<times> world" where
  "ser_connect ser_collection nodes w =
     fold (\<lambda>i cw. fold (ser_tube ser_collection nodes i)
                    (take 3 (neighbour_distances nodes i)) cw)
       [0..<length nodes] ({}, w)"

definition ser_junction :: "coll \<Rightarrow> vec list \<Rightarrow> nat \<Rightarrow> world \<Rightarrow> world" where
  "ser_junction ser_collection nodes i =
     add_sphere 0.045 (nodes ! i) (''SERJunction_{}'', [i]) mat_smooth_er ser_collection"

definition ser_junctions :: "coll \<Rightarrow> vec list \<Rightarrow> world \<Rightarrow> world" where
  "ser_junctions ser_collection nodes w =
     fold (ser_junction ser_collection nodes) [0..<length nodes] w"

definition create_smooth_er :: "world \<Rightarrow> world" where
  "create_smooth_er w =
     (case new_scene_collection ''SmoothER'' w of (ser_collection, w0) \<Rightarrow>
      case draw ser_nodes w0 of (nodes, w1) \<Rightarrow>
        ser_junctions ser_collection nodes (snd (ser_connect ser_collection nodes w1)))"

subsection \<open>Mitochondria, lines 445-510\<close>

text \<open>
  \<^verbatim>\<open>create_mitochondrion\<close> first makes a collection of its own, which it neither links
  to the scene nor uses. The body of the loop over the four cristae, lines 473-490. The statement of line
  486 adds the value of a call of \<^verbatim>\<open>Vector.rotate\<close> to the location of the crista.
\<close>

definition add_crista :: "vec \<Rightarrow> vec \<Rightarrow> real \<Rightarrow> real \<Rightarrow> nat \<Rightarrow> nat \<Rightarrow> world \<Rightarrow> unit result" where
  "add_crista loc rotation len radius outer i w =
     (case primitive_add ''Torus'' (Torus (radius * 0.6) 0.015) loc w of (crista, w1) \<Rightarrow>
        let w2 = set_rotation crista rotation w1;
            w3 = upd_object crista
                   (\<lambda>ob. ob\<lparr>rotation_euler :=
                      (case rotation_euler ob of (rx, ry, rz) \<Rightarrow> (rx + pi / 2, ry, rz))\<rparr>) w2;
            offset = (real i - 1.5) * (len / 4.5)
        in case vector_iadd (location (objects w3 ! crista))
                  (snd (vector_rotate (0, 0, offset) (rotation_euler (objects w3 ! outer)))) of
             Inl e \<Rightarrow> Raise e w3
           | Inr l \<Rightarrow>
               Ok () (append_material crista mat_mitochondria_inner
                        (set_name crista (''Crista_{}'', [i])
                          (upd_object crista (\<lambda>ob. ob\<lparr>location := l\<rparr>) w3))))"

definition create_mitochondrion :: "vec \<Rightarrow> vec \<Rightarrow> world \<Rightarrow> nat result" where
  "create_mitochondrion loc rotation w =
     (case collections_new ''Mitochondrion'' w of (mito_collection, w0) \<Rightarrow>
      case draw (random_uniform 0.35 0.55) w0 of (len, w1) \<Rightarrow>
      case draw (random_uniform 0.1 0.15) w1 of (radius, w2) \<Rightarrow>
      case primitive_add ''Cylinder'' (Cylinder radius len) loc w2 of (outer, w3) \<Rightarrow>
        let w4 = set_rotation outer rotation w3;
            w5 = add_modifier outer ''Subdivision'' 2 w4;
            w6 = append_material outer mat_mitochondria_outer
                   (set_name outer (''MitoOuter'', []) w5)
        in case for_range (add_crista loc rotation len radius outer) [0..<4] w6 of
             Raise e w7 \<Rightarrow> Raise e w7
           | Ok u w7 \<Rightarrow> Ok outer w7)"

text \<open>The position of a mitochondrion, lines 500-502.\<close>

definition mitochondrion_position :: "rng \<Rightarrow> vec \<times> rng" where
  "mitochondrion_position g =
     (case random_point_in_sphere 2.2 g of (pos, g') \<Rightarrow>
        (if vlength pos < 1.4 then smult 1.7 (normalized pos) else pos, g'))"

definition mitochondrion :: "coll \<Rightarrow> nat \<Rightarrow> world \<Rightarrow> unit result" where
  "mitochondrion mito_collection i w =
     (case draw mitochondrion_position w of (pos, w1) \<Rightarrow>
      case draw random_random w1 of (a, w2) \<Rightarrow>
      case draw random_random w2 of (b, w3) \<Rightarrow>
      case draw random_random w3 of (c, w4) \<Rightarrow>
        let rot = (a * pi, b * pi, c * pi)
        in case create_mitochondrion pos rot w4 of
             Raise e w5 \<Rightarrow> Raise e w5
           | Ok mito w5 \<Rightarrow>
               Ok () (into_collection mito_collection mito
                        (set_name mito (''Mitochondrion_{}'', [i]) w5)))"

definition create_mitochondria :: "world \<Rightarrow> unit result" where
  "create_mitochondria w =
     (case new_scene_collection ''Mitochondria'' w of (mito_collection, w0) \<Rightarrow>
        for_range (mitochondrion mito_collection) [0..<12] w0)"

subsection \<open>Golgi apparatus, lines 518-562\<close>

definition golgi_base :: vec where
  "golgi_base = (- 1.8, 0.3, 1.0)"

definition golgi_cisterna :: "coll \<Rightarrow> nat \<Rightarrow> world \<Rightarrow> world" where
  "golgi_cisterna golgi_collection i w =
     (case primitive_add ''Torus'' (Torus 0.28 0.05)
             (vadd golgi_base (real i * 0.04, real i * 0.1, 0)) w of (cisterna, w1) \<Rightarrow>
        let w2 = upd_object cisterna
                   (\<lambda>ob. ob\<lparr>scale := (case scale ob of (sx, sy, sz) \<Rightarrow> (sx, sy, 0.35))\<rparr>) w1;
            w3 = set_rotation cisterna (0, 0, pi / 4) w2
        in into_collection golgi_collection cisterna
             (append_material cisterna mat_golgi
               (set_name cisterna (''GolgiCisterna_{}'', [i]) w3)))"

definition golgi_vesicle :: "coll \<Rightarrow> nat \<Rightarrow> world \<Rightarrow> world" where
  "golgi_vesicle golgi_collection i w =
     (case draw random_random w of (u, w1) \<Rightarrow>
      case draw (random_uniform 0 0.2) w1 of (dx, w2) \<Rightarrow>
      case draw (random_uniform (- 0.15) 0.35) w2 of (dy, w3) \<Rightarrow>
      case draw (random_uniform (- 0.2) 0.2) w3 of (dz, w4) \<Rightarrow>
        add_sphere (0.04 + u * 0.025) (vadd golgi_base (0.3 + dx, dy, dz))
          (''GolgiVesicle_{}'', [i]) mat_vesicle golgi_collection w4)"

definition create_golgi :: "world \<Rightarrow> world" where
  "create_golgi w =
     (case new_scene_collection ''GolgiApparatus'' w of (golgi_collection, w0) \<Rightarrow>
        fold (golgi_vesicle golgi_collection) [0..<8]
          (fold (golgi_cisterna golgi_collection) [0..<5] w0))"

subsection \<open>Lysosomes, lines 570-593\<close>

definition lysosome_position :: "rng \<Rightarrow> vec \<times> rng" where
  "lysosome_position g =
     (case random_point_in_sphere 2.3 g of (pos, g') \<Rightarrow>
        (if vlength pos < 1.4 then smult 1.7 (normalized pos) else pos, g'))"

definition lysosome :: "coll \<Rightarrow> nat \<Rightarrow> world \<Rightarrow> world" where
  "lysosome lyso_collection i w =
     (case draw lysosome_position w of (pos, w1) \<Rightarrow>
      case draw (random_uniform 0.07 0.12) w1 of (radius, w2) \<Rightarrow>
        add_sphere radius pos (''Lysosome_{}'', [i]) mat_lysosome lyso_collection w2)"

definition create_lysosomes :: "world \<Rightarrow> world" where
  "create_lysosomes w =
     (case new_scene_collection ''Lysosomes'' w of (lyso_collection, w0) \<Rightarrow>
        fold (lysosome lyso_collection) [0..<10] w0)"

subsection \<open>Centrosome, lines 601-635\<close>

definition centrosome_base :: vec where
  "centrosome_base = (1.5, - 0.5, - 1.2)"

text \<open>
  One tube of a triplet, lines 615-633. Both branches of the conditional for the
  y offset are the constant 0, as in the source.
\<close>

definition centriole_tube :: "coll \<Rightarrow> nat \<Rightarrow> nat \<Rightarrow> nat \<Rightarrow> world \<Rightarrow> world" where
  "centriole_tube centro_collection c i t w =
     (let centriole_pos = vadd centrosome_base (0, real c * 0.18, 0);
          angle = (real i / 9) * 2 * pi;
          r = 0.07 + real t * 0.015;
          offset_angle = angle + real t * 0.08
      in case primitive_add ''Cylinder'' (Cylinder 0.012 0.2)
                (vadd centriole_pos
                   (cos offset_angle * r, (if c = 0 then 0 else 0), sin offset_angle * r)) w of
           (tube, w1) \<Rightarrow>
             let w2 = (if c = 1
                       then upd_object tube
                              (\<lambda>ob. ob\<lparr>rotation_euler :=
                                 (case rotation_euler ob of (rx, ry, rz) \<Rightarrow> (pi / 2, ry, rz))\<rparr>) w1
                       else w1)
             in into_collection centro_collection tube
                  (append_material tube mat_centriole
                    (set_name tube (''Centriole{}_Triplet{}_{}'', [c, i, t]) w2)))"

definition create_centrosome :: "world \<Rightarrow> world" where
  "create_centrosome w =
     (case new_scene_collection ''Centrosome'' w of (centro_collection, w0) \<Rightarrow>
        fold (\<lambda>c. fold (\<lambda>i. fold (centriole_tube centro_collection c i) [0..<3]) [0..<9])
          [0..<2] w0)"

subsection \<open>Free ribosomes, lines 643-665\<close>

definition free_ribosome_position :: "rng \<Rightarrow> vec \<times> rng" where
  "free_ribosome_position g =
     (case random_point_in_sphere 2.5 g of (pos, g') \<Rightarrow>
        (if vlength pos < 1.3 then smult 1.5 (normalized pos) else pos, g'))"

definition free_ribosome :: "coll \<Rightarrow> nat \<Rightarrow> world \<Rightarrow> world" where
  "free_ribosome ribo_collection i w =
     (case draw free_ribosome_position w of (pos, w1) \<Rightarrow>
        add_sphere 0.022 pos (''FreeRibosome_{}'', [i]) mat_ribosome ribo_collection w1)"

definition create_free_ribosomes :: "world \<Rightarrow> world" where
  "create_free_ribosomes w =
     (case new_scene_collection ''FreeRibosomes'' w of (ribo_collection, w0) \<Rightarrow>
        fold (free_ribosome ribo_collection) [0..<60] w0)"

subsection \<open>Cytoskeleton, lines 673-711\<close>

definition microtubule :: "coll \<Rightarrow> nat \<Rightarrow> world \<Rightarrow> world" where
  "microtubule cyto_collection i w =
     (case draw (random_point_on_sphere 2.7) w of (p, w1) \<Rightarrow>
      case draw (random_uniform (- 2) 2) w1 of (y, w2) \<Rightarrow>
        let end_pos = (vec_x p, y, vec_z p)
        in case draw (random_uniform (- 0.25) 0.25) w2 of (mx, w3) \<Rightarrow>
           case draw (random_uniform (- 0.25) 0.25) w3 of (my, w4) \<Rightarrow>
           case draw (random_uniform (- 0.25) 0.25) w4 of (mz, w5) \<Rightarrow>
             let mid = vadd (vdiv (vadd centrosome_base end_pos) 2) (mx, my, mz)
             in case new_curve_object (''Microtubule_{}'', [i]) [centrosome_base, end_pos]
                       0.006 w5 of
                  (curve_obj, w6) \<Rightarrow>
                    link_object cyto_collection curve_obj
                      (append_material curve_obj mat_cytoskeleton w6))"

definition create_cytoskeleton :: "world \<Rightarrow> world" where
  "create_cytoskeleton w =
     (case new_scene_collection ''Cytoskeleton'' w of (cyto_collection, w0) \<Rightarrow>
        fold (microtubule cyto_collection) [0..<18] w0)"

subsection \<open>Camera and lights, lines 719-733\<close>

definition final_setup :: "world \<Rightarrow> world" where
  "final_setup w =
     (case object_add CAMERA ''Camera'' CameraData (8, - 8, 6) w of (camera, w1) \<Rightarrow>
        let w2 = set_rotation camera (60 * pi / 180, 0, 45 * pi / 180) w1
        in case object_add LIGHT ''Sun'' (LightData ''SUN'' 2) (5, - 5, 10) w2 of (sun, w3) \<Rightarrow>
           case object_add LIGHT ''Area'' (LightData ''AREA'' 100) (- 5, 5, 5) w3 of
             (fill, w4) \<Rightarrow> w4)"

section \<open>The script\<close>

text \<open>
  The generators run in the order of the module. An exception that leaves a
  generator ends the script: the generators after it do not run.
\<close>

definition build_cell :: "world \<Rightarrow> unit result" where
  "build_cell w =
     (let membrane = create_membrane w;
          nucleus = create_nucleus membrane;
          rough_er = create_rough_er nucleus;
          smooth_er = create_smooth_er rough_er
      in case create_mitochondria smooth_er of
           Raise e mitochondria \<Rightarrow> Raise e mitochondria
         | Ok u mitochondria \<Rightarrow>
             let golgi = create_golgi mitochondria;
                 lysosomes = create_lysosomes golgi;
                 centrosome = create_centrosome lysosomes;
                 free_ribosomes = create_free_ribosomes centrosome;
                 cytoskeleton = create_cytoskeleton free_ribosomes
             in Ok () (final_setup cytoskeleton))"

text \<open>
  The Blender file the script runs in: the objects of the scene, the data blocks
  that no object uses any more (each with its kind and its material slots), the
  registered materials and the collections.
\<close>

record blend_file =
  scene_objects :: "object list"
  orphan_data :: "(otype \<times> material list) list"
  data_materials :: "material list"
  data_collections :: "collection list"

text \<open>
  \<^verbatim>\<open>clear_scene\<close>, lines 23-34: select every object and delete the selected ones;
  the data of a deleted object loses its user. Then remove the meshes without users,
  and then the materials that no remaining data block uses. Nothing removes a
  collection: the collections of the file stay, without the deleted objects.
\<close>

definition clear_scene :: "blend_file \<Rightarrow> blend_file" where
  "clear_scene b =
     (let selected = map (\<lambda>ob. ob\<lparr>select := True\<rparr>) (scene_objects b);
          kept = filter (\<lambda>ob. \<not> select ob) selected;
          deleted = filter select selected;
          orphans = orphan_data b @ map (\<lambda>ob. (otype ob, materials ob)) deleted;
          orphans' = filter (\<lambda>d. fst d \<noteq> MESH) orphans;
          used = concat (map materials kept) @ concat (map snd orphans')
      in \<lparr>scene_objects = kept, orphan_data = orphans',
          data_materials = filter (\<lambda>m. m \<in> set used) (data_materials b),
          data_collections = data_collections b\<rparr>)"

text \<open>
  The script runs in an interpreter session: the state of the random generator of
  Python, which the script draws from and never seeds, and the Blender file. One run
  of the script clears the scene, creates the materials and builds the cell. The
  result is the exception that ended the run, if any, and the session as the run
  leaves it.
\<close>

record session =
  generator :: rng
  blend :: blend_file

definition script :: "session \<Rightarrow> py_error option \<times> session" where
  "script s =
     (let b1 = clear_scene (blend s);
          b2 = b1\<lparr>data_materials := data_materials b1 @ script_materials\<rparr>;
          r = build_cell \<lparr>rng = generator s, objects = scene_objects b2,
                          collections = data_collections b2\<rparr>
      in (raised r,
          \<lparr>generator = rng (result_world r),
           blend = b2\<lparr>scene_objects := objects (result_world r),
                      data_collections := collections (result_world r)\<rparr>\<rparr>))"

text \<open>
  A run with a seed: whoever runs the script has seeded the generator, which fixes
  the stream that the run draws from, and runs the script in a file. The result is
  the exception that ended the run, if any, and the file as the run leaves it; the
  generator is left where the run stopped drawing.
\<close>

definition run_script :: "rng \<Rightarrow> blend_file \<Rightarrow> py_error option \<times> blend_file" where
  "run_script seed b =
     (case script \<lparr>generator = seed, blend = b\<rparr> of (e, s) \<Rightarrow> (e, blend s))"

section \<open>The specification's deformation formula\<close>

text \<open>
  The roll-up term as the specification words it: zero while the normalised radial
  distance of \<open>(x, y)\<close> from the centre of the sheet is at most 0.7, and quadratic
  beyond. The sheet spans \<open>-1/2\<close> to \<open>1/2\<close> in both local coordinates, so the
  normalised coordinates are \<open>2x\<close> and \<open>2y\<close>, and the radial distance is their
  Euclidean norm.
\<close>

definition spec_radial_distance :: "real \<Rightarrow> real \<Rightarrow> real" where
  "spec_radial_distance x y = sqrt ((2 * x)\<^sup>2 + (2 * y)\<^sup>2)"

definition spec_z_displacement :: "real \<Rightarrow> real \<Rightarrow> real" where
  "spec_z_displacement x y =
     0.15 * (1 - (2 * x)\<^sup>2)
     + (sin (8 * x) * 0.03 + sin (6 * y) * 0.02)
     + (let d = spec_radial_distance x y
        in if d \<le> 0.7 then 0 else ((d - 0.7) / 0.3)\<^sup>2 * 0.06)"

section \<open>Observations on a scene\<close>

text \<open>The objects of a list whose name was built from a given template.\<close>

definition named :: "string \<Rightarrow> object list \<Rightarrow> object list" where
  "named tmpl obs = filter (\<lambda>ob. fst (name ob) = tmpl) obs"

definition count_named :: "string \<Rightarrow> object list \<Rightarrow> nat" where
  "count_named tmpl obs = length (named tmpl obs)"


text \<open>The templates of the names of the objects of a world, in the order of creation.\<close>

definition templates :: "world \<Rightarrow> string list" where
  "templates w = map (\<lambda>ob. fst (name ob)) (objects w)"

text \<open>The first number filled into the name of an object.\<close>

definition first_index :: "object \<Rightarrow> nat" where
  "first_index ob = hd (snd (name ob))"

text \<open>The objects a generator adds to a world.\<close>

definition created :: "(world \<Rightarrow> world) \<Rightarrow> world \<Rightarrow> object list" where
  "created f w = drop (length (objects w)) (objects (f w))"

text \<open>
  A generator keeps an invariant of the random generator and appends objects that
  all have a given property.
\<close>

definition appends :: "(rng \<Rightarrow> bool) \<Rightarrow> (object \<Rightarrow> bool) \<Rightarrow> world \<Rightarrow> world \<Rightarrow> bool" where
  "appends I Q w w' \<longleftrightarrow>
     (I (rng w) \<longrightarrow> I (rng w') \<and> (\<exists>new. objects w' = objects w @ new \<and> (\<forall>ob\<in>set new. Q ob)))"

text \<open>
  A world with no objects and no collections, its generator at the start of the
  stream of zeros, and a file with nothing in it.
\<close>

definition empty_world :: world where
  "empty_world = \<lparr>rng = zero_rng, objects = [], collections = []\<rparr>"


text \<open>The collections of the objects of a world, in the order of creation.\<close>

definition groups :: "world \<Rightarrow> coll list list" where
  "groups w = map users_collection (objects w)"

subsection \<open>The same objects in other collections\<close>

text \<open>
  A run that starts with \<open>n'\<close> collections in the file instead of \<open>n\<close> gets other
  handles for the collections it makes: the handle \<open>n + k\<close> becomes \<open>n' + k\<close>.
\<close>

fun shift_coll :: "nat \<Rightarrow> nat \<Rightarrow> coll \<Rightarrow> coll" where
  "shift_coll n n' SceneCollection = SceneCollection"
| "shift_coll n n' (Coll k) = (if k < n then Coll k else Coll (n' + (k - n)))"

definition regroup :: "nat \<Rightarrow> nat \<Rightarrow> object \<Rightarrow> object" where
  "regroup n n' ob = ob\<lparr>users_collection := map (shift_coll n n') (users_collection ob)\<rparr>"

text \<open>
  The world of such a run, seen from the run with \<open>n\<close> collections: the same
  generator, the same objects in the shifted collections, and its own list of
  collections.
\<close>

definition rebase :: "nat \<Rightarrow> nat \<Rightarrow> collection list \<Rightarrow> world \<Rightarrow> world" where
  "rebase n n' cs' w =
     \<lparr>rng = rng w, objects = map (regroup n n') (objects w), collections = cs'\<rparr>"

text \<open>A generator that is another one after some draws: further along the same stream.\<close>

definition later :: "rng \<Rightarrow> rng \<Rightarrow> bool" where
  "later g g' \<longleftrightarrow> draws g' = draws g \<and> cursor g \<le> cursor g'"

text \<open>The outcome of a step, with the world it leaves seen through a function.\<close>

fun on_world :: "(world \<Rightarrow> world) \<Rightarrow> 'a result \<Rightarrow> 'a result" where
  "on_world f (Ok x w) = Ok x (f w)"
| "on_world f (Raise e w) = Raise e (f w)"

text \<open>
  The collections that a run of the script adds to those of the file before it ends:
  four that it links to the scene, and the one of the first mitochondrion.
\<close>

definition fresh_collection :: "string \<Rightarrow> bool \<Rightarrow> collection list \<Rightarrow> collection list" where
  "fresh_collection nm linked cs = cs @ [\<lparr>coll_name = unique_name nm cs, in_scene = linked\<rparr>]"




subsection \<open>Rough ER\<close>

text \<open>
  A position beside a sheet at \<open>loc\<close>: inside the box of the stack around \<open>loc\<close>, and
  0.025 below or above it.
\<close>

definition beside_sheet :: "rer_stack \<Rightarrow> vec \<Rightarrow> vec \<Rightarrow> bool" where
  "beside_sheet st loc p \<longleftrightarrow>
     \<bar>vec_x p - vec_x loc\<bar> \<le> half_x st \<and> \<bar>vec_y p - vec_y loc\<bar> \<le> half_y st
     \<and> (vec_z p = vec_z loc - 0.025 \<or> vec_z p = vec_z loc + 0.025)"

text \<open>
  An object that is a ribosome of a stack, by its name, lies beside the cisterna
  whose number is the first one in its name.
\<close>

definition ribosome_placed :: "rer_stack \<Rightarrow> object \<Rightarrow> bool" where
  "ribosome_placed st ob \<longleftrightarrow>
     (fst (name ob) = ribosome_name st \<longrightarrow>
        beside_sheet st (cisterna_location st (first_index ob)) (location ob))"

subsection \<open>Smooth ER\<close>

text \<open>
  The region in which the nodes of the smooth-ER network are sampled: within 2.4 of
  the vertical axis through the centre, at a height of at most 0.7 above or below
  the centre, and so within 2.5 of the centre.
\<close>

definition node_region :: "vec \<Rightarrow> bool" where
  "node_region p \<longleftrightarrow>
     (vec_x p)\<^sup>2 + (vec_z p)\<^sup>2 < 2.4\<^sup>2 \<and> \<bar>vec_y p\<bar> \<le> 0.7 \<and> vlength p < 2.5"

text \<open>
  The edges of the smooth-ER network are its tubes: the two node indices filled into
  the name of a tube, and the unordered pair they stand for.
\<close>

definition tube_ends :: "object \<Rightarrow> nat \<times> nat" where
  "tube_ends ob = (snd (name ob) ! 0, snd (name ob) ! 1)"

definition ser_edges :: "object list \<Rightarrow> (nat \<times> nat) list" where
  "ser_edges obs = map tube_ends (named ''SERTube_{}_{}'' obs)"

definition unordered :: "nat \<times> nat \<Rightarrow> nat \<times> nat" where
  "unordered e = (min (fst e) (snd e), max (fst e) (snd e))"

definition good_edge :: "vec list \<Rightarrow> nat \<times> nat \<Rightarrow> bool" where
  "good_edge nodes e \<longleftrightarrow>
     fst e \<noteq> snd e \<and> fst e < length nodes \<and> snd e < length nodes
     \<and> vlength (vsub (nodes ! fst e) (nodes ! snd e)) < 1.2"

text \<open>
  The invariant of the loops that connect the nodes, relative to the world \<open>w\<close> in
  which they start: so far tubes have been appended, and nothing else, all in the
  collection of the network; no unordered
  pair has two tubes; the set \<^verbatim>\<open>connected\<close> holds exactly the pairs that have one; and
  every tube is a good edge.
\<close>

definition ser_invariant :: "coll \<Rightarrow> vec list \<Rightarrow> world \<Rightarrow> (nat \<times> nat) set \<times> world \<Rightarrow> bool" where
  "ser_invariant c nodes w cw \<longleftrightarrow>
     (\<exists>new. objects (snd cw) = objects w @ new
        \<and> named ''SERTube_{}_{}'' new = new
        \<and> list_all (\<lambda>ob. users_collection ob = [c]) new
        \<and> distinct (map unordered (map tube_ends new))
        \<and> set (map unordered (map tube_ends new)) = fst cw
        \<and> list_all (good_edge nodes) (map tube_ends new))"

text \<open>The connecting loops alone, as a generator.\<close>

definition connect_nodes :: "coll \<Rightarrow> vec list \<Rightarrow> world \<Rightarrow> world" where
  "connect_nodes c nodes w = snd (ser_connect c nodes w)"

text \<open>Three nodes, two of them at the same place and the third 2 away.\<close>

definition three_nodes :: "vec list" where
  "three_nodes = [(0, 0, 0), (0, 0, 0), (2, 0, 0)]"

subsection \<open>Centrosome\<close>

text \<open>
  The long axis of a cylinder primitive is its local z axis; in the scene it points
  along the image of that axis under the rotation of the object.
\<close>

definition cylinder_axis :: "object \<Rightarrow> vec" where
  "cylinder_axis ob = euler_rotate (rotation_euler ob) (0, 0, 1)"

text \<open>
  The centre of the ring of a centriole, \<^verbatim>\<open>centriole_pos\<close> of line 609, and the vector
  from that centre to the centre of a tube of the centriole, whose number is the first
  one in the name of the tube.
\<close>

definition centriole_centre :: "nat \<Rightarrow> vec" where
  "centriole_centre c = vadd centrosome_base (0, real c * 0.18, 0)"

definition radial :: "object \<Rightarrow> vec" where
  "radial ob = vsub (location ob) (centriole_centre (first_index ob))"

text \<open>
  Tubes form a barrel along an axis when each of them runs along that axis, in one
  direction or the other, and their centres lie around the centre of the ring in the
  plane at right angles to the axis.
\<close>

definition barrel :: "vec \<Rightarrow> object list \<Rightarrow> bool" where
  "barrel axis tubes \<longleftrightarrow>
     list_all (\<lambda>a. cylinder_axis a = axis \<or> cylinder_axis a = smult (- 1) axis) tubes
     \<and> list_all (\<lambda>a. vdot (radial a) axis = 0) tubes"

chapter \<open>Verification\<close>

section \<open>The sampler and the push-out rule\<close>

lemma valid_rng_step: "valid_rng g \<Longrightarrow> valid_rng (snd (random_random g))"
  by (simp add: valid_rng_def random_random_def)

lemma spherical_norm:
  "(r * sin p * cos t)\<^sup>2 + (r * sin p * sin t)\<^sup>2 + (r * cos p)\<^sup>2 = (r::real)\<^sup>2"
  by (simp add: sin_squared_eq algebra_simps)

lemma vlength_spherical:
  "vlength (r * sin p * cos t, r * sin p * sin t, r * cos p) = \<bar>r\<bar>"
  by (simp add: spherical_norm)

lemma cube_root_le_one: "0 \<le> (w::real) \<Longrightarrow> w < 1 \<Longrightarrow> w powr (1 / 3) \<le> 1"
  using powr_mono2 [where a = "1 / 3" and x = w and y = 1] by simp

lemma point_in_sphere_length:
  "vlength (fst (random_point_in_sphere radius g))
     = \<bar>radius * (draws g (cursor g + 2) powr (1 / 3))\<bar>"
  by (simp add: random_point_in_sphere_def random_random_def Let_def vlength_spherical
      del: vlength.simps)

lemma point_in_sphere_radial_zero:
  "draws g (cursor g + 2) = 0 \<Longrightarrow> fst (random_point_in_sphere radius g) = origin"
  by (simp add: random_point_in_sphere_def random_random_def Let_def origin_def)

lemma cube_root_eighth: "(1 / 8) powr (1 / 3) = (1 / 2 :: real)"
proof -
  have "((1 / 2 :: real) powr 3) powr (1 / 3) = (1 / 2) powr (3 * (1 / 3))"
    by (rule powr_powr)
  moreover have "(1 / 2 :: real) powr 3 = 1 / 8"
    by (simp add: power3_eq_cube)
  ultimately show ?thesis by simp
qed

lemma vlength_zero_iff: "vlength v = 0 \<longleftrightarrow> v = origin"
proof (cases v)
  case (fields a b c)
  show ?thesis
    by (simp add: fields origin_def sum_power2_eq_zero_iff add_nonneg_eq_0_iff)
qed

lemma vlength_nonneg: "0 \<le> vlength v"
  by (cases v) simp

lemma vlength_smult: "vlength (smult k v) = \<bar>k\<bar> * vlength v"
proof (cases v)
  case (fields a b c)
  have "(k * a)\<^sup>2 + (k * b)\<^sup>2 + (k * c)\<^sup>2 = k\<^sup>2 * (a\<^sup>2 + b\<^sup>2 + c\<^sup>2)"
    by (simp add: power_mult_distrib distrib_left)
  then show ?thesis
    by (simp add: fields real_sqrt_mult)
qed

lemma smult_smult: "smult a (smult b v) = smult (a * b) v"
  by (cases v) (simp add: mult.assoc)

lemma push_out_direction:
  "vlength p \<noteq> 0 \<Longrightarrow> smult k (normalized p) = smult (k / vlength p) p"
  by (simp add: normalized_def smult_smult)

lemma push_out_length:
  "vlength p \<noteq> 0 \<Longrightarrow> 0 \<le> k \<Longrightarrow> vlength (smult k (normalized p)) = k"
  by (simp add: push_out_direction vlength_smult vlength_nonneg)

lemma push_out_origin: "smult k (normalized origin) = origin"
  by (simp add: normalized_def origin_def)

text \<open>
  Claim C8. For every radius \<open>r > 0\<close> and every draw of the random source (every
  variate in the half-open unit interval), \<^verbatim>\<open>random_point_in_sphere(r)\<close> returns a
  point whose distance from the origin is at most \<open>r\<close>.
\<close>

theorem point_in_sphere_within_radius:
  assumes "0 < r" and "valid_rng g"
  shows "vlength (fst (random_point_in_sphere r g)) \<le> r"
proof -
  let ?w = "draws g (cursor g + 2)"
  have w: "0 \<le> ?w" "?w < 1" using assms(2) by (simp_all add: valid_rng_def)
  have c: "0 \<le> ?w powr (1 / 3)" by simp
  have "\<bar>r * (?w powr (1 / 3))\<bar> = r * (?w powr (1 / 3))"
    using assms(1) c by (simp add: abs_mult)
  also have "\<dots> \<le> r * 1"
    using assms(1) cube_root_le_one [OF w] by (intro mult_left_mono) simp_all
  finally show ?thesis by (simp add: point_in_sphere_length)
qed

text \<open>The theorem at the radius 2 and the stream of halves.\<close>

theorem point_in_sphere_within_radius_witness:
  "(0::real) < 2 \<and> valid_rng half_rng
   \<and> vlength (fst (random_point_in_sphere 2 half_rng)) \<le> 2"
  using point_in_sphere_within_radius [of 2 half_rng]
  by (simp add: valid_rng_def half_rng_def)

lemma push_out_generic:
  assumes "0 \<le> k" and q: "q = (if vlength p < t then smult k (normalized p) else p)"
  shows "(0 < vlength p \<and> vlength p < t \<longrightarrow> vlength q = k \<and> q = smult (k / vlength p) p)
         \<and> (t \<le> vlength p \<longrightarrow> q = p)"
proof (intro conjI impI)
  assume a: "0 < vlength p \<and> vlength p < t"
  then have nz: "vlength p \<noteq> 0" by simp
  from a show "vlength q = k"
    using push_out_length [OF nz assms(1)] by (simp add: q)
  from a show "q = smult (k / vlength p) p"
    using push_out_direction [OF nz] by (simp add: q)
next
  assume "t \<le> vlength p"
  then show "q = p" by (simp add: q)
qed

text \<open>
  Claim C2, as amended. For every position sampled for a mitochondrion, a lysosome
  or a free ribosome: if its distance from the origin before the push is positive
  and below the threshold (1.4, 1.4, 1.3), the position is replaced by the point at
  the minimum radius (1.7, 1.7, 1.5) in the same direction, a positive multiple of
  the sampled point; if the distance is at or beyond the threshold the position is
  left unchanged.
\<close>

theorem push_out_rule:
  "(let p = fst (random_point_in_sphere 2.2 g); q = fst (mitochondrion_position g)
    in (0 < vlength p \<and> vlength p < 1.4 \<longrightarrow>
          vlength q = 1.7 \<and> q = smult (1.7 / vlength p) p)
       \<and> (1.4 \<le> vlength p \<longrightarrow> q = p))
   \<and> (let p = fst (random_point_in_sphere 2.3 g); q = fst (lysosome_position g)
      in (0 < vlength p \<and> vlength p < 1.4 \<longrightarrow>
            vlength q = 1.7 \<and> q = smult (1.7 / vlength p) p)
         \<and> (1.4 \<le> vlength p \<longrightarrow> q = p))
   \<and> (let p = fst (random_point_in_sphere 2.5 g); q = fst (free_ribosome_position g)
      in (0 < vlength p \<and> vlength p < 1.3 \<longrightarrow>
            vlength q = 1.5 \<and> q = smult (1.5 / vlength p) p)
         \<and> (1.3 \<le> vlength p \<longrightarrow> q = p))"
proof -
  have m: "(0 < vlength (fst (random_point_in_sphere 2.2 g))
           \<and> vlength (fst (random_point_in_sphere 2.2 g)) < 1.4 \<longrightarrow>
         vlength (fst (mitochondrion_position g)) = 1.7
           \<and> fst (mitochondrion_position g)
               = smult (1.7 / vlength (fst (random_point_in_sphere 2.2 g)))
                   (fst (random_point_in_sphere 2.2 g)))
        \<and> (1.4 \<le> vlength (fst (random_point_in_sphere 2.2 g)) \<longrightarrow>
             fst (mitochondrion_position g) = fst (random_point_in_sphere 2.2 g))"
    by (rule push_out_generic) (simp_all add: mitochondrion_position_def split_beta)
  have l: "(0 < vlength (fst (random_point_in_sphere 2.3 g))
           \<and> vlength (fst (random_point_in_sphere 2.3 g)) < 1.4 \<longrightarrow>
         vlength (fst (lysosome_position g)) = 1.7
           \<and> fst (lysosome_position g)
               = smult (1.7 / vlength (fst (random_point_in_sphere 2.3 g)))
                   (fst (random_point_in_sphere 2.3 g)))
        \<and> (1.4 \<le> vlength (fst (random_point_in_sphere 2.3 g)) \<longrightarrow>
             fst (lysosome_position g) = fst (random_point_in_sphere 2.3 g))"
    by (rule push_out_generic) (simp_all add: lysosome_position_def split_beta)
  have f: "(0 < vlength (fst (random_point_in_sphere 2.5 g))
           \<and> vlength (fst (random_point_in_sphere 2.5 g)) < 1.3 \<longrightarrow>
         vlength (fst (free_ribosome_position g)) = 1.5
           \<and> fst (free_ribosome_position g)
               = smult (1.5 / vlength (fst (random_point_in_sphere 2.5 g)))
                   (fst (random_point_in_sphere 2.5 g)))
        \<and> (1.3 \<le> vlength (fst (random_point_in_sphere 2.5 g)) \<longrightarrow>
             fst (free_ribosome_position g) = fst (random_point_in_sphere 2.5 g))"
    by (rule push_out_generic) (simp_all add: free_ribosome_position_def split_beta)
  show ?thesis
    unfolding Let_def by (rule conjI [OF m conjI [OF l f]])
qed

lemma inner_rng_length:
  "vlength (fst (random_point_in_sphere radius inner_rng)) = \<bar>radius\<bar> / 2"
  by (simp add: point_in_sphere_length inner_rng_def cube_root_eighth abs_mult)

text \<open>
  The theorem at a stream whose samples lie at half the radius of each sphere
  (1.1, 1.15 and 1.25 from the origin): all three are pushed out.
\<close>

theorem push_out_rule_witness:
  "vlength (fst (mitochondrion_position inner_rng)) = 1.7
   \<and> vlength (fst (lysosome_position inner_rng)) = 1.7
   \<and> vlength (fst (free_ribosome_position inner_rng)) = 1.5"
proof -
  have a: "0 < vlength (fst (random_point_in_sphere 2.2 inner_rng))
           \<and> vlength (fst (random_point_in_sphere 2.2 inner_rng)) < 1.4"
    by (simp add: inner_rng_length)
  have b: "0 < vlength (fst (random_point_in_sphere 2.3 inner_rng))
           \<and> vlength (fst (random_point_in_sphere 2.3 inner_rng)) < 1.4"
    by (simp add: inner_rng_length)
  have c: "0 < vlength (fst (random_point_in_sphere 2.5 inner_rng))
           \<and> vlength (fst (random_point_in_sphere 2.5 inner_rng)) < 1.3"
    by (simp add: inner_rng_length)
  from push_out_rule [of inner_rng, unfolded Let_def] a b c show ?thesis
    by blast
qed

text \<open>
  Claim C2 as stated fails where the sampled point is the origin: the distance 0 is
  below the threshold, and the pushed position is not at the radius 1.7.
\<close>

theorem push_out_fails_at_centre:
  "vlength (fst (random_point_in_sphere 2.2 zero_rng)) < 1.4
   \<and> vlength (fst (mitochondrion_position zero_rng)) \<noteq> 1.7"
proof -
  have p: "fst (random_point_in_sphere radius zero_rng) = origin" for radius
    by (rule point_in_sphere_radial_zero) (simp add: zero_rng_def)
  have "fst (mitochondrion_position zero_rng) = origin"
    by (simp add: mitochondrion_position_def split_beta p push_out_origin)
  with p show ?thesis by (simp add: origin_def)
qed

text \<open>
  Claim C10. When the radial variate of \<^verbatim>\<open>random_point_in_sphere\<close> is 0 the sampled
  point is the origin, normalising it yields the zero vector again, and the push-out
  of a mitochondrion, a lysosome and a free ribosome leaves the organelle at the
  exact centre of the cell, at distance 0 and not at the minimum radius.
\<close>

theorem push_out_at_centre:
  assumes "draws g (cursor g + 2) = 0"
  shows "fst (mitochondrion_position g) = origin
         \<and> fst (lysosome_position g) = origin
         \<and> fst (free_ribosome_position g) = origin
         \<and> vlength origin = 0"
proof -
  have p: "fst (random_point_in_sphere radius g) = origin" for radius
    using assms by (rule point_in_sphere_radial_zero)
  show ?thesis
    by (simp add: mitochondrion_position_def lysosome_position_def
        free_ribosome_position_def split_beta p push_out_origin)
       (simp add: origin_def)
qed

text \<open>The theorem at the stream of zeros.\<close>

theorem push_out_at_centre_witness:
  "draws zero_rng (cursor zero_rng + 2) = 0
   \<and> fst (mitochondrion_position zero_rng) = origin
   \<and> fst (lysosome_position zero_rng) = origin
   \<and> fst (free_ribosome_position zero_rng) = origin"
  using push_out_at_centre [of zero_rng] by (simp add: zero_rng_def)

section \<open>How the primitives change a world\<close>

lemma draw_simps [simp]:
  "fst (draw f w) = fst (f (rng w))"
  "objects (snd (draw f w)) = objects w"
  "collections (snd (draw f w)) = collections w"
  "rng (snd (draw f w)) = snd (f (rng w))"
  by (simp_all add: draw_def split_beta)

lemma object_add_simps [simp]:
  "fst (object_add ty dn geom loc w) = length (objects w)"
  "rng (snd (object_add ty dn geom loc w)) = rng w"
  "collections (snd (object_add ty dn geom loc w)) = collections w"
  "objects (snd (object_add ty dn geom loc w)) = objects w @
     [\<lparr>name = (dn, []), otype = ty, geometry = geom, materials = [],
       users_collection = [SceneCollection], location = loc,
       rotation_euler = (0, 0, 0), scale = (1, 1, 1), modifiers = [], select = True\<rparr>]"
  by (simp_all add: object_add_def)

lemma primitive_add_simps [simp]:
  "fst (primitive_add dn geom loc w) = length (objects w)"
  "rng (snd (primitive_add dn geom loc w)) = rng w"
  "collections (snd (primitive_add dn geom loc w)) = collections w"
  "objects (snd (primitive_add dn geom loc w)) = objects w @
     [\<lparr>name = (dn, []), otype = MESH, geometry = geom, materials = [],
       users_collection = [SceneCollection], location = loc,
       rotation_euler = (0, 0, 0), scale = (1, 1, 1), modifiers = [], select = True\<rparr>]"
  by (simp_all add: primitive_add_def)

lemma new_curve_object_simps [simp]:
  "fst (new_curve_object nm points bevel w) = length (objects w)"
  "rng (snd (new_curve_object nm points bevel w)) = rng w"
  "collections (snd (new_curve_object nm points bevel w)) = collections w"
  "objects (snd (new_curve_object nm points bevel w)) = objects w @
     [\<lparr>name = nm, otype = CURVE, geometry = Bezier points bevel, materials = [],
       users_collection = [], location = (0, 0, 0),
       rotation_euler = (0, 0, 0), scale = (1, 1, 1), modifiers = [], select = False\<rparr>]"
  by (simp_all add: new_curve_object_def)

lemma upd_object_simps [simp]:
  "rng (upd_object h f w) = rng w"
  "collections (upd_object h f w) = collections w"
  "objects (upd_object h f w) = (objects w)[h := f (objects w ! h)]"
  by (simp_all add: upd_object_def)

lemmas attribute_defs =
  set_name_def append_material_def set_rotation_def set_scale_def add_modifier_def
  link_object_def unlink_object_def into_collection_def

lemma new_scene_collection_simps [simp]:
  "fst (new_scene_collection nm w) = Coll (length (collections w))"
  "rng (snd (new_scene_collection nm w)) = rng w"
  "objects (snd (new_scene_collection nm w)) = objects w"
  "collections (snd (new_scene_collection nm w)) = fresh_collection nm True (collections w)"
  by (simp_all add: new_scene_collection_def collections_new_def children_link_def
      fresh_collection_def)

lemma collections_new_simps [simp]:
  "fst (collections_new nm w) = length (collections w)"
  "rng (snd (collections_new nm w)) = rng w"
  "objects (snd (collections_new nm w)) = objects w"
  "collections (snd (collections_new nm w)) = fresh_collection nm False (collections w)"
  by (simp_all add: collections_new_def fresh_collection_def)

lemma add_sphere_simps [simp]:
  "rng (add_sphere radius loc nm mat coll w) = rng w"
  "collections (add_sphere radius loc nm mat coll w) = collections w"
  "objects (add_sphere radius loc nm mat coll w) = objects w @
     [\<lparr>name = nm, otype = MESH, geometry = UVSphere radius, materials = [mat],
       users_collection = [coll], location = loc,
       rotation_euler = (0, 0, 0), scale = (1, 1, 1), modifiers = [], select = True\<rparr>]"
  by (simp_all add: add_sphere_def attribute_defs split_beta)

section \<open>Loops that only append objects\<close>

lemma fold_objects:
  assumes "\<And>i w. objects (f i w) = objects w @ new i"
  shows "objects (fold f xs w) = objects w @ concat (map new xs)"
  using assms by (induction xs arbitrary: w) simp_all

lemma fold_names:
  assumes "\<And>i w. map name (objects (f i w)) = map name (objects w) @ ns i"
  shows "map name (objects (fold f xs w)) = map name (objects w) @ concat (map ns xs)"
  using assms by (induction xs arbitrary: w) simp_all


lemma appends_refl: "appends I Q w w"
  by (simp add: appends_def)

lemma appends_trans: "appends I Q w w' \<Longrightarrow> appends I Q w' w'' \<Longrightarrow> appends I Q w w''"
  by (fastforce simp: appends_def)

lemma fold_appends:
  assumes "\<And>i w. i \<in> set xs \<Longrightarrow> appends I Q w (f i w)"
  shows "appends I Q w (fold f xs w)"
  using assms
proof (induction xs arbitrary: w)
  case Nil
  show ?case by (simp add: appends_refl)
next
  case (Cons x xs)
  have "appends I Q w (f x w)" by (rule Cons.prems) simp
  moreover have "appends I Q (f x w) (fold f xs (f x w))"
    by (rule Cons.IH) (simp add: Cons.prems)
  ultimately show ?case by (simp add: appends_trans)
qed

lemma appends_created:
  "appends I Q w (f w) \<Longrightarrow> I (rng w) \<Longrightarrow> ob \<in> set (created f w) \<Longrightarrow> Q ob"
  by (auto simp: appends_def created_def)

section \<open>The deformation of a rough-ER cisterna\<close>

lemma deform_vertex_formula:
  "deform_vertex (x, y, z) =
     (x, y, 0.15 * (1 - (2 * x)\<^sup>2) + (sin (8 * x) * 0.03 + sin (6 * y) * 0.02)
            + (let d = max \<bar>2 * x\<bar> \<bar>2 * y\<bar>
               in if d \<le> 0.7 then 0 else ((d - 0.7) / 0.3)\<^sup>2 * 0.06))"
  by (simp add: deform_vertex_def Let_def mult.commute not_le [symmetric])

lemma cisterna_geometry:
  "geometry (objects (snd (create_er_cisterna width height loc rot w))
              ! fst (create_er_cisterna width height loc rot w))
     = Plane (deform_vertices (plane_vertices 1 12))"
  by (simp add: create_er_cisterna_def primitive_add_def object_add_def upd_object_def
      set_scale_def set_rotation_def add_modifier_def append_material_def Let_def)

lemma concat_map_member:
  "x \<in> set (f i) \<Longrightarrow> i \<in> set xs \<Longrightarrow> x \<in> set (concat (map f xs))"
  by auto

lemma plane_vertex_member:
  assumes "i < cuts + 2" "j < cuts + 2"
  shows "(side * (real i / real (cuts + 1) - 1 / 2),
          side * (real j / real (cuts + 1) - 1 / 2), 0) \<in> set (plane_vertices side cuts)"
proof -
  have i: "i \<in> set [0..<cuts + 2]" and j: "j \<in> set [0..<cuts + 2]"
    using assms by (simp_all only: set_upt atLeastLessThan_iff le0 simp_thms)
  have "(side * (real i / real (cuts + 1) - 1 / 2),
          side * (real j / real (cuts + 1) - 1 / 2), 0)
        \<in> set (map (\<lambda>j. (side * (real i / real (cuts + 1) - 1 / 2),
                                   side * (real j / real (cuts + 1) - 1 / 2), 0))
                          [0..<cuts + 2])"
    unfolding set_map using j by (rule imageI)
  then show ?thesis
    unfolding plane_vertices_def using i by (rule concat_map_member)
qed

lemma corner_vertex: "(1 / 2, 1 / 2, 0) \<in> set (plane_vertices 1 12)"
  using plane_vertex_member [of 13 12 13 1] by simp

lemma first_vertex: "(- 1 / 2, - 1 / 2, 0) \<in> set (plane_vertices 1 12)"
  using plane_vertex_member [of 0 12 0 1] by simp

lemma sqrt2_roll: "((sqrt 2 - 7 / 10) / (3 / 10))\<^sup>2 \<noteq> (1::real)"
proof
  assume "((sqrt 2 - 7 / 10) / (3 / 10))\<^sup>2 = (1::real)"
  then have "\<bar>(sqrt 2 - 7 / 10) / (3 / 10)\<bar> = (1::real)"
    by (simp add: power2_eq_1_iff abs_if)
  moreover have "sqrt 2 > (1::real)" by simp
  ultimately have "sqrt 2 = (1::real)" by (simp add: abs_if field_simps split: if_splits)
  then show False by simp
qed

text \<open>
  Claim C3, as amended. A cisterna is the plane cut 12 times and deformed; the
  deformation keeps the number of vertices, and for every vertex at local coordinates
  \<open>(x, y)\<close> it sets the z coordinate to the sum of the curvature term
  \<open>0.15 (1 - (2x)\<^sup>2)\<close>, the waviness term \<open>sin (8x) 0.03 + sin (6y) 0.02\<close> and a roll-up
  term that is zero while the normalised edge distance \<open>d = max |2x| |2y|\<close> is at most
  0.7 and \<open>((d - 0.7) / 0.3)\<^sup>2 0.06\<close> beyond. The result is a function of \<open>(x, y)\<close>
  alone: the old z coordinate does not enter it.
\<close>

theorem cisterna_deformation:
  "geometry (objects (snd (create_er_cisterna width height loc rot w))
              ! fst (create_er_cisterna width height loc rot w))
     = Plane (deform_vertices (plane_vertices 1 12))
   \<and> length (deform_vertices vs) = length vs
   \<and> (\<forall>i < length vs.
         case vs ! i of (x, y, z) \<Rightarrow>
           deform_vertices vs ! i =
             (x, y, 0.15 * (1 - (2 * x)\<^sup>2) + (sin (8 * x) * 0.03 + sin (6 * y) * 0.02)
                    + (let d = max \<bar>2 * x\<bar> \<bar>2 * y\<bar>
                       in if d \<le> 0.7 then 0 else ((d - 0.7) / 0.3)\<^sup>2 * 0.06)))"
proof (intro conjI allI impI)
  show "geometry (objects (snd (create_er_cisterna width height loc rot w))
              ! fst (create_er_cisterna width height loc rot w))
     = Plane (deform_vertices (plane_vertices 1 12))"
    by (rule cisterna_geometry)
  show "length (deform_vertices vs) = length vs"
    by (simp add: deform_vertices_def)
next
  fix i assume i: "i < length vs"
  obtain x y z where v: "vs ! i = (x, y, z)" by (cases "vs ! i")
  with i have "deform_vertices vs ! i = deform_vertex (x, y, z)"
    by (simp add: deform_vertices_def)
  then show "case vs ! i of (x, y, z) \<Rightarrow>
           deform_vertices vs ! i =
             (x, y, 0.15 * (1 - (2 * x)\<^sup>2) + (sin (8 * x) * 0.03 + sin (6 * y) * 0.02)
                    + (let d = max \<bar>2 * x\<bar> \<bar>2 * y\<bar>
                       in if d \<le> 0.7 then 0 else ((d - 0.7) / 0.3)\<^sup>2 * 0.06))"
    by (simp only: v deform_vertex_formula prod.case)
qed

text \<open>
  The theorem at two vertices of the grid, the corners \<open>(-1/2, -1/2)\<close> and
  \<open>(1/2, 1/2)\<close> of the plane.
\<close>

theorem cisterna_deformation_witness:
  "(- 1 / 2, - 1 / 2, 0) \<in> set (plane_vertices 1 12)
   \<and> (1 / 2, 1 / 2, 0) \<in> set (plane_vertices 1 12)
   \<and> deform_vertices [(- 1 / 2, - 1 / 2, 0), (1 / 2, 1 / 2, 0)] ! 0
       = (- 1 / 2, - 1 / 2, - sin 4 * 0.03 - sin 3 * 0.02 + 0.06)
   \<and> deform_vertices [(- 1 / 2, - 1 / 2, 0), (1 / 2, 1 / 2, 0)] ! 1
       = (1 / 2, 1 / 2, sin 4 * 0.03 + sin 3 * 0.02 + 0.06)"
proof -
  note all = cisterna_deformation [of 1 1 origin origin empty_world
      "[(- 1 / 2, - 1 / 2, 0), (1 / 2, 1 / 2, 0)]", THEN conjunct2, THEN conjunct2, rule_format]
  from all [of 0] all [of 1] have
    "deform_vertices [(- 1 / 2, - 1 / 2, 0), (1 / 2, 1 / 2, 0)] ! 0
       = (- 1 / 2, - 1 / 2, - sin 4 * 0.03 - sin 3 * 0.02 + 0.06)
     \<and> deform_vertices [(- 1 / 2, - 1 / 2, 0), (1 / 2, 1 / 2, 0)] ! 1
       = (1 / 2, 1 / 2, sin 4 * 0.03 + sin 3 * 0.02 + 0.06)"
    by (simp add: Let_def power2_eq_square)
  with first_vertex corner_vertex show ?thesis by (intro conjI) simp_all
qed

text \<open>
  Claim C3 as stated, with the radial distance of the specification, fails at the
  corner vertex \<open>(1/2, 1/2)\<close> of the grid (row 13, column 13 of the 14 by 14 vertices):
  the code's edge distance there is 1 and its roll-up term 0.06, while the normalised
  radial distance is \<open>\<surd>2\<close>, for which the specification's roll-up term is
  \<open>((\<surd>2 - 0.7) / 0.3)\<^sup>2 0.06\<close>.
\<close>

theorem roll_up_not_radial:
  "(1 / 2, 1 / 2, 0) \<in> set (plane_vertices 1 12)
   \<and> vec_z (deform_vertex (1 / 2, 1 / 2, 0)) = 0.15 * (1 - 1) + (sin 4 * 0.03 + sin 3 * 0.02) + 0.06
   \<and> spec_radial_distance (1 / 2) (1 / 2) = sqrt 2
   \<and> vec_z (deform_vertex (1 / 2, 1 / 2, 0)) \<noteq> spec_z_displacement (1 / 2) (1 / 2)"
proof (intro conjI)
  show "(1 / 2, 1 / 2, 0) \<in> set (plane_vertices 1 12)" by (rule corner_vertex)
  show z: "vec_z (deform_vertex (1 / 2, 1 / 2, 0)) = 0.15 * (1 - 1) + (sin 4 * 0.03 + sin 3 * 0.02) + 0.06"
    by (simp add: deform_vertex_def Let_def power2_eq_square)
  show d: "spec_radial_distance (1 / 2) (1 / 2) = sqrt 2"
    by (simp add: spec_radial_distance_def)
  have big: "\<not> sqrt 2 \<le> (7 / 10 :: real)"
  proof
    assume "sqrt 2 \<le> (7 / 10 :: real)"
    moreover have "sqrt 2 > (1::real)" by simp
    ultimately show False by simp
  qed
  have "spec_z_displacement (1 / 2) (1 / 2)
        = sin 4 * 0.03 + sin 3 * 0.02 + ((sqrt 2 - 7 / 10) / (3 / 10))\<^sup>2 * 0.06"
    unfolding spec_z_displacement_def d Let_def using big by simp
  with sqrt2_roll show "vec_z (deform_vertex (1 / 2, 1 / 2, 0)) \<noteq> spec_z_displacement (1 / 2) (1 / 2)"
    unfolding z by simp
qed

section \<open>The names of the objects a generator adds\<close>

lemma templates_simps [simp]:
  "templates (snd (draw f w)) = templates w"
  "templates (snd (object_add ty dn geom loc w)) = templates w @ [dn]"
  "templates (snd (primitive_add dn geom loc w)) = templates w @ [dn]"
  "templates (snd (new_curve_object nm points bevel w)) = templates w @ [fst nm]"
  "templates (add_sphere radius loc nm mat coll w) = templates w @ [fst nm]"
  "templates (snd (new_scene_collection cn w)) = templates w"
  "templates (snd (collections_new cn w)) = templates w"
  by (simp_all add: templates_def)

lemma fold_templates:
  assumes "\<And>i w. templates (f i w) = templates w @ ts"
  shows "templates (fold f xs w) = templates w @ concat (replicate (length xs) ts)"
  using assms by (induction xs arbitrary: w) simp_all

lemma count_filter_map: "length (filter (\<lambda>x. f x = t) xs) = count_list (map f xs) t"
  by (induction xs) simp_all

lemma count_named_templates: "count_named t (objects w) = count_list (templates w) t"
  by (simp add: count_named_def named_def templates_def count_filter_map)

lemma count_list_replicate: "count_list (replicate n x) t = (if x = t then n else 0)"
  by (induction n) auto

lemma concat_replicate_single: "concat (replicate n [x]) = replicate n x"
  by (induction n) simp_all

lemma count_list_concat_replicate:
  "count_list (concat (replicate n ts)) t = n * count_list ts t"
  by (induction n) simp_all

lemma concat_replicate_replicate:
  "concat (replicate n (replicate m x)) = replicate (n * m) x"
  by (induction n) (simp_all add: replicate_add)

lemma count_list_absent: "t \<notin> set ts \<Longrightarrow> count_list ts t = 0"
  by (induction ts) auto

lemma create_membrane_templates:
  "templates (create_membrane w) = templates w @ [''CellMembrane'']"
  by (simp add: create_membrane_def attribute_defs split_beta templates_def)

lemma chromatin_strand_templates:
  "templates (chromatin_strand c i w) = templates w @ [''Chromatin{}'']"
  by (simp add: chromatin_strand_def attribute_defs split_beta Let_def templates_def)

lemma create_nucleus_templates:
  "templates (create_nucleus w) = templates w
     @ [''NuclearEnvelope'', ''Nucleoplasm'', ''Nucleolus'']
     @ replicate 10 ''Chromatin{}''"
  by (simp add: create_nucleus_def Let_def split_beta
      fold_templates [OF chromatin_strand_templates] concat_replicate_single)


lemma rer_ribosome_templates:
  "templates (rer_ribosome c st loc i r w) = templates w @ [ribosome_name st]"
  by (simp add: rer_ribosome_def split_beta)

lemma create_er_cisterna_templates:
  "templates (set_name (fst (create_er_cisterna width height loc rot w)) (nm, idx)
                 (snd (create_er_cisterna width height loc rot w)))
     = templates w @ [nm]"
  by (simp add: create_er_cisterna_def attribute_defs split_beta Let_def templates_def)

lemma upd_object_templates:
  assumes "\<And>ob. fst (name (f ob)) = fst (name ob)"
  shows "templates (upd_object h f w) = templates w"
proof (cases "h < length (objects w)")
  case True
  then show ?thesis
    by (simp add: templates_def map_update assms list_update_same_conv)
next
  case False
  then have "(objects w)[h := f (objects w ! h)] = objects w"
    by (intro list_update_beyond) simp
  then show ?thesis by (simp add: templates_def)
qed

lemma into_collection_templates [simp]:
  "templates (into_collection c h w) = templates w"
  by (simp add: into_collection_def link_object_def unlink_object_def upd_object_templates)

lemma rer_cisterna_templates:
  "templates (rer_cisterna c st i w)
     = templates w @ (cisterna_name st # replicate (ribosomes st) (ribosome_name st))"
  by (simp add: rer_cisterna_def split_beta Let_def
      fold_templates [OF rer_ribosome_templates] concat_replicate_single
      create_er_cisterna_templates)

lemma rer_stack_loop_templates:
  "templates (rer_stack_loop c st w)
     = templates w @ concat (replicate (cisternae st)
         (cisterna_name st # replicate (ribosomes st) (ribosome_name st)))"
  by (simp add: rer_stack_loop_def fold_templates [OF rer_cisterna_templates])

lemma create_rough_er_templates:
  "templates (create_rough_er w) = templates w
     @ concat (replicate 5 (''RER_Stack1_Cisterna{}'' # replicate 20 ''Ribosome_S1C{}_{}''))
     @ concat (replicate 4 (''RER_Stack2_Cisterna{}'' # replicate 15 ''Ribosome_S2C{}_{}''))
     @ concat (replicate 3 (''RER_Stack3_Cisterna{}'' # replicate 12 ''Ribosome_S3C{}_{}''))"
  by (simp add: create_rough_er_def split_beta rer_stack_loop_templates
      stack1_def stack2_def stack3_def)


section \<open>The smooth-ER network\<close>

subsection \<open>The connecting loops\<close>

lemma fold_invariant:
  assumes "\<And>x s. x \<in> set xs \<Longrightarrow> P s \<Longrightarrow> P (f x s)" and "P s"
  shows "P (fold f xs s)"
  using assms by (induction xs arbitrary: s) simp_all

lemma neighbour_distances_member:
  assumes "(j, d) \<in> set (take n (neighbour_distances nodes i))"
  shows "j \<noteq> i \<and> j < length nodes \<and> d = vlength (vsub (nodes ! i) (nodes ! j))"
proof -
  from assms have "(j, d) \<in> set (neighbour_distances nodes i)"
    by (rule in_set_takeD)
  then show ?thesis by (auto simp: neighbour_distances_def)
qed

lemma ser_tube_invariant:
  assumes inv: "ser_invariant c nodes w cw"
    and mem: "jd \<in> set (take 3 (neighbour_distances nodes i))"
    and i: "i < length nodes"
  shows "ser_invariant c nodes w (ser_tube c nodes i jd cw)"
proof -
  obtain j d where jd: "jd = (j, d)" by (cases jd)
  obtain conn w' where cw: "cw = (conn, w')" by (cases cw)
  from mem jd have j: "j \<noteq> i" "j < length nodes"
    and d: "d = vlength (vsub (nodes ! i) (nodes ! j))"
    using neighbour_distances_member [of j d 3 nodes i] by simp_all
  from inv cw obtain new where new: "objects w' = objects w @ new"
    "named ''SERTube_{}_{}'' new = new"
    "distinct (map unordered (map tube_ends new))"
    "set (map unordered (map tube_ends new)) = conn"
    "list_all (good_edge nodes) (map tube_ends new)"
    "list_all (\<lambda>ob. users_collection ob = [c]) new"
    by (auto simp: ser_invariant_def)
  show ?thesis
  proof (cases "d < 1.2 \<and> (min i j, max i j) \<notin> conn")
    case False
    then have "ser_tube c nodes i jd cw = cw"
      by (auto simp: ser_tube_def jd cw Let_def)
    with inv show ?thesis by simp
  next
    case True
    define tube where "tube = \<lparr>name = (''SERTube_{}_{}'', [i, j]), otype = CURVE,
       geometry = Bezier [nodes ! i, nodes ! j] 0.03, materials = [mat_smooth_er],
       users_collection = [c], location = (0, 0, 0),
       rotation_euler = (0, 0, 0), scale = (1, 1, 1), modifiers = [], select = False\<rparr>"
    have nm: "name tube = (''SERTube_{}_{}'', [i, j])" by (simp add: tube_def)
    from True have r: "fst (ser_tube c nodes i jd cw) = insert (min i j, max i j) conn"
      "objects (snd (ser_tube c nodes i jd cw)) = objects w' @ [tube]"
      by (simp_all add: ser_tube_def jd cw Let_def split_beta attribute_defs tube_def)
    have e: "tube_ends tube = (i, j)" by (simp add: tube_ends_def nm)
    have u: "unordered (i, j) = (min i j, max i j)" by (simp add: unordered_def)
    have g: "good_edge nodes (i, j)"
      using True i j d by (simp add: good_edge_def)
    have "objects (snd (ser_tube c nodes i jd cw)) = objects w @ (new @ [tube])"
      by (simp add: r new)
    moreover have "named ''SERTube_{}_{}'' (new @ [tube]) = new @ [tube]"
      using new(2) by (simp add: named_def nm)
    moreover have "distinct (map unordered (map tube_ends (new @ [tube])))"
      using new(3,4) True by (simp add: e u)
    moreover have "set (map unordered (map tube_ends (new @ [tube])))
                   = fst (ser_tube c nodes i jd cw)"
      using new(4) by (simp add: e u r)
    moreover have "list_all (good_edge nodes) (map tube_ends (new @ [tube]))"
      using new(5) g by (simp add: e)
    moreover have "list_all (\<lambda>ob. users_collection ob = [c]) (new @ [tube])"
      using new(6) by (simp add: tube_def)
    ultimately show ?thesis
      unfolding ser_invariant_def by blast
  qed
qed

lemma ser_connect_invariant: "ser_invariant c nodes w (ser_connect c nodes w)"
  unfolding ser_connect_def
proof (rule fold_invariant)
  show "ser_invariant c nodes w ({}, w)"
    by (simp add: ser_invariant_def named_def)
next
  fix i cw
  assume i: "i \<in> set [0..<length nodes]" and inv: "ser_invariant c nodes w cw"
  show "ser_invariant c nodes w
          (fold (ser_tube c nodes i) (take 3 (neighbour_distances nodes i)) cw)"
  proof (rule fold_invariant)
    show "ser_invariant c nodes w cw" by (rule inv)
  next
    fix jd s
    assume "jd \<in> set (take 3 (neighbour_distances nodes i))" and "ser_invariant c nodes w s"
    then show "ser_invariant c nodes w (ser_tube c nodes i jd s)"
      using i by (intro ser_tube_invariant) simp_all
  qed
qed


subsection \<open>The nodes\<close>

lemma ser_nodes_fold:
  "\<exists>more. fst (fold (\<lambda>i (nodes, g'). case ser_node g' of (p, g'') \<Rightarrow> (nodes @ [p], g''))
                    xs (ns, g)) = ns @ more
          \<and> length more = length xs"
proof (induction xs arbitrary: ns g)
  case Nil
  show ?case by simp
next
  case (Cons x xs)
  from Cons.IH [of "ns @ [fst (ser_node g)]" "snd (ser_node g)"]
  obtain more where
    "fst (fold (\<lambda>i (nodes, g'). case ser_node g' of (p, g'') \<Rightarrow> (nodes @ [p], g''))
           xs (ns @ [fst (ser_node g)], snd (ser_node g))) = (ns @ [fst (ser_node g)]) @ more"
    and "length more = length xs"
    by blast
  then have
    "fst (fold (\<lambda>i (nodes, g'). case ser_node g' of (p, g'') \<Rightarrow> (nodes @ [p], g''))
           (x # xs) (ns, g)) = ns @ (fst (ser_node g) # more)
     \<and> length (fst (ser_node g) # more) = length (x # xs)"
    by (simp add: split_beta)
  then show ?case by blast
qed

lemma ser_nodes_length: "length (fst (ser_nodes g)) = 25"
proof -
  from ser_nodes_fold [of "[0..<25]" "[]" g] obtain more where
    "fst (ser_nodes g) = more" and "length more = length [0..<25]"
    unfolding ser_nodes_def by auto
  then show ?thesis by simp
qed

lemma ser_nodes_first: "fst (ser_nodes g) ! 0 = fst (ser_node g)"
proof -
  have u: "[0..<25] = 0 # [1..<25]" by (simp add: upt_conv_Cons)
  have "fst (ser_nodes g)
      = fst (fold (\<lambda>i (nodes, g'). case ser_node g' of (p, g'') \<Rightarrow> (nodes @ [p], g''))
               [1..<25] ([fst (ser_node g)], snd (ser_node g)))"
    unfolding ser_nodes_def u by (simp add: split_beta)
  with ser_nodes_fold [of "[1..<25]" "[fst (ser_node g)]" "snd (ser_node g)"]
  obtain more where "fst (ser_nodes g) = [fst (ser_node g)] @ more" by auto
  then show ?thesis by simp
qed

lemma ser_node_valid: "valid_rng g \<Longrightarrow> valid_rng (snd (ser_node g))"
  by (simp add: ser_node_def random_random_def split_beta Let_def valid_rng_def)

lemma square_less: "\<bar>x\<bar> < y \<Longrightarrow> x\<^sup>2 < y\<^sup>2" for x y :: real
  using power_strict_mono [of "\<bar>x\<bar>" y 2] by simp

lemma square_le: "\<bar>x\<bar> \<le> y \<Longrightarrow> x\<^sup>2 \<le> y\<^sup>2" for x y :: real
  using power_mono [of "\<bar>x\<bar>" y 2] by simp

lemma ser_node_region:
  assumes "valid_rng g"
  shows "node_region (fst (ser_node g))"
proof -
  define a b c d where "a = draws g (cursor g)" and "b = draws g (Suc (cursor g))"
    and "c = draws g (Suc (Suc (cursor g)))" and "d = draws g (Suc (Suc (Suc (cursor g))))"
  define r y where "r = 1.9 + c * 0.5" and "y = (d - 0.5) * 1.4"
  define s where "s = r * sin (b * pi)"
  have p: "fst (ser_node g) = (s * cos (a * 2 * pi), y, s * sin (a * 2 * pi))"
    by (simp add: ser_node_def random_random_def split_beta Let_def
        a_def b_def c_def d_def r_def y_def s_def)
  from assms have c: "0 \<le> c" "c < 1" and d: "0 \<le> d" "d < 1"
    by (simp_all add: valid_rng_def c_def d_def)
  have r: "0 \<le> r" "r < 2.4" using c by (simp_all add: r_def)
  have "\<bar>s\<bar> = r * \<bar>sin (b * pi)\<bar>"
    using r(1) by (simp add: s_def abs_mult)
  also have "\<dots> \<le> r * 1"
    using r(1) by (intro mult_left_mono) simp_all
  finally have "\<bar>s\<bar> < 2.4" using r(2) by simp
  then have s2: "s\<^sup>2 < 2.4\<^sup>2" by (rule square_less)
  have "(s * cos (a * 2 * pi))\<^sup>2 + (s * sin (a * 2 * pi))\<^sup>2
        = s\<^sup>2 * ((cos (a * 2 * pi))\<^sup>2 + (sin (a * 2 * pi))\<^sup>2)"
    by (simp only: power_mult_distrib distrib_left)
  then have xz_eq: "(s * cos (a * 2 * pi))\<^sup>2 + (s * sin (a * 2 * pi))\<^sup>2 = s\<^sup>2"
    by simp
  have y: "\<bar>y\<bar> \<le> 0.7"
  proof -
    have "- 0.7 \<le> y" "y \<le> 0.7" using d by (simp_all add: y_def)
    then show ?thesis by (simp add: abs_le_iff)
  qed
  then have y2: "y\<^sup>2 \<le> 0.7\<^sup>2" by (rule square_le)
  have "(2.4::real)\<^sup>2 + 0.7\<^sup>2 = 2.5\<^sup>2" by (simp add: power2_eq_square)
  with s2 y2 have "s\<^sup>2 + y\<^sup>2 < 2.5\<^sup>2" by linarith
  then have "(s * cos (a * 2 * pi))\<^sup>2 + y\<^sup>2 + (s * sin (a * 2 * pi))\<^sup>2 < 2.5\<^sup>2"
    using xz_eq by linarith
  then have len: "sqrt ((s * cos (a * 2 * pi))\<^sup>2 + y\<^sup>2 + (s * sin (a * 2 * pi))\<^sup>2) < 2.5"
    by (intro real_less_lsqrt) simp_all
  show ?thesis
    unfolding p node_region_def vec_x.simps vec_y.simps vec_z.simps vlength.simps
    using s2 xz_eq y len by simp
qed

lemma ser_nodes_region_fold:
  assumes "valid_rng g" and "list_all node_region ns"
  shows "list_all node_region
           (fst (fold (\<lambda>i (nodes, g'). case ser_node g' of (p, g'') \<Rightarrow> (nodes @ [p], g''))
                  xs (ns, g)))"
  using assms
proof (induction xs arbitrary: ns g)
  case Nil
  then show ?case by simp
next
  case (Cons x xs)
  from Cons.prems have "valid_rng (snd (ser_node g))"
    and "list_all node_region (ns @ [fst (ser_node g)])"
    by (simp_all add: ser_node_valid ser_node_region)
  from Cons.IH [OF this] show ?case by (simp add: split_beta)
qed

lemma ser_nodes_region: "valid_rng g \<Longrightarrow> list_all node_region (fst (ser_nodes g))"
  unfolding ser_nodes_def by (rule ser_nodes_region_fold) simp_all


subsection \<open>The network as a whole\<close>

lemma ser_junctions_objects:
  "objects (ser_junctions c nodes w) = objects w @
     concat (map (\<lambda>i. [\<lparr>name = (''SERJunction_{}'', [i]), otype = MESH,
        geometry = UVSphere 0.045, materials = [mat_smooth_er],
        users_collection = [c], location = nodes ! i,
        rotation_euler = (0, 0, 0), scale = (1, 1, 1), modifiers = [], select = True\<rparr>])
       [0..<length nodes])"
  unfolding ser_junctions_def by (rule fold_objects) (simp add: ser_junction_def)

lemma create_smooth_er_objects:
  "\<exists>tubes junctions.
      objects (create_smooth_er w) = objects w @ tubes @ junctions
      \<and> named ''SERTube_{}_{}'' tubes = tubes
      \<and> named ''SERJunction_{}'' junctions = junctions
      \<and> length junctions = 25
      \<and> distinct (map unordered (map tube_ends tubes))
      \<and> list_all (good_edge (fst (ser_nodes (rng w)))) (map tube_ends tubes)"
proof -
  define c where "c = Coll (length (collections w))"
  define nodes where "nodes = fst (ser_nodes (rng w))"
  define w1 where "w1 = snd (draw ser_nodes (snd (new_scene_collection ''SmoothER'' w)))"
  define junctions where "junctions =
     concat (map (\<lambda>i. [\<lparr>name = (''SERJunction_{}'', [i]), otype = MESH,
        geometry = UVSphere 0.045, materials = [mat_smooth_er],
        users_collection = [c], location = nodes ! i,
        rotation_euler = (0, 0, 0), scale = (1, 1, 1), modifiers = [], select = True\<rparr>])
       [0..<length nodes])"
  have n: "length nodes = 25" by (simp add: nodes_def ser_nodes_length)
  from ser_connect_invariant [of c nodes w1] obtain tubes where t:
    "objects (snd (ser_connect c nodes w1)) = objects w1 @ tubes"
    "named ''SERTube_{}_{}'' tubes = tubes"
    "distinct (map unordered (map tube_ends tubes))"
    "list_all (good_edge nodes) (map tube_ends tubes)"
    by (auto simp: ser_invariant_def)
  have ow1: "objects w1 = objects w" by (simp add: w1_def)
  have o: "objects (create_smooth_er w) = objects w @ tubes @ junctions"
    by (simp add: create_smooth_er_def split_beta nodes_def [symmetric] w1_def [symmetric]
        c_def [symmetric] ser_junctions_objects t(1) ow1 junctions_def)
  have j: "named ''SERJunction_{}'' junctions = junctions" "length junctions = 25"
    by (simp_all add: junctions_def named_def n filter_concat comp_def length_concat
        sum_list_triv)
  from o t j show ?thesis
    unfolding nodes_def by (intro exI [of _ tubes] exI [of _ junctions]) simp
qed

lemma ser_connect_edges:
  "distinct (map unordered (ser_edges (created (connect_nodes c nodes) w)))
   \<and> list_all (good_edge nodes) (ser_edges (created (connect_nodes c nodes) w))"
proof -
  from ser_connect_invariant [of c nodes w] obtain tubes where
    "objects (snd (ser_connect c nodes w)) = objects w @ tubes"
    "named ''SERTube_{}_{}'' tubes = tubes"
    "distinct (map unordered (map tube_ends tubes))"
    "list_all (good_edge nodes) (map tube_ends tubes)"
    by (auto simp: ser_invariant_def)
  then show ?thesis by (simp add: created_def ser_edges_def connect_nodes_def)
qed

lemma create_smooth_er_edges:
  "distinct (map unordered (ser_edges (created create_smooth_er w)))
   \<and> list_all (good_edge (fst (ser_nodes (rng w)))) (ser_edges (created create_smooth_er w))"
proof -
  from create_smooth_er_objects [of w] obtain tubes junctions where
    o: "objects (create_smooth_er w) = objects w @ tubes @ junctions"
    and t: "named ''SERTube_{}_{}'' tubes = tubes"
    and j: "named ''SERJunction_{}'' junctions = junctions"
    and d: "distinct (map unordered (map tube_ends tubes))"
    and g: "list_all (good_edge (fst (ser_nodes (rng w)))) (map tube_ends tubes)"
    by blast
  have "named ''SERTube_{}_{}'' (named ''SERJunction_{}'' junctions) = []"
    by (simp add: named_def)
  then have "named ''SERTube_{}_{}'' junctions = []" by (simp only: j)
  then have "ser_edges (created create_smooth_er w) = map tube_ends tubes"
    using t by (simp add: created_def o ser_edges_def named_def)
  with d g show ?thesis by simp
qed

text \<open>
  Claim C4. In the network that the connecting loops build from any list of nodes,
  and so in the smooth-ER network built from the 25 generated nodes, no unordered
  pair of node indices appears as an edge more than once, every edge connects two
  distinct nodes of the list, and every edge joins nodes whose Euclidean distance is
  strictly less than 1.2.
\<close>

theorem smooth_er_network:
  "(let edges = ser_edges (created (connect_nodes c nodes) w)
    in distinct (map unordered edges)
       \<and> (\<forall>e\<in>set edges. fst e \<noteq> snd e \<and> fst e < length nodes \<and> snd e < length nodes
              \<and> vlength (vsub (nodes ! fst e) (nodes ! snd e)) < 1.2))
   \<and> (let generated = fst (ser_nodes (rng w));
          edges = ser_edges (created create_smooth_er w)
      in length generated = 25
         \<and> distinct (map unordered edges)
         \<and> (\<forall>e\<in>set edges. fst e \<noteq> snd e \<and> fst e < 25 \<and> snd e < 25
                \<and> vlength (vsub (generated ! fst e) (generated ! snd e)) < 1.2))"
  using ser_connect_edges [of c nodes w] create_smooth_er_edges [of w] ser_nodes_length [of "rng w"]
  by (simp add: Let_def list_all_iff good_edge_def)

text \<open>
  The theorem at three nodes, two at the same place and one 2 away: the network has
  the one edge between the first two nodes, found from either end and added once.
\<close>

theorem smooth_er_network_witness:
  "ser_edges (created (connect_nodes SceneCollection three_nodes) empty_world) = [(0, 1)]
   \<and> vlength (vsub (three_nodes ! 0) (three_nodes ! 1)) < 1.2"
proof -
  have e: "ser_edges (created (connect_nodes SceneCollection three_nodes) empty_world) = [(0, 1)]"
    by (simp add: created_def connect_nodes_def ser_connect_def three_nodes_def empty_world_def
        neighbour_distances_def upt_rec ser_tube_def Let_def split_beta attribute_defs
        ser_edges_def named_def tube_ends_def)
  from smooth_er_network [of SceneCollection three_nodes empty_world, THEN conjunct1, unfolded Let_def e]
  show ?thesis using e by simp
qed


text \<open>
  Claim C5, as amended. There are 25 nodes. Each lies within 2.4 of the vertical axis
  through the centre of the cell (its horizontal distance is \<open>r sin \<phi>\<close> for a radius
  \<open>r\<close> from 1.9 up to 2.4), at a height of at most 0.7 above or below the centre, and
  so within 2.5 of the centre.
\<close>

theorem ser_nodes_in_region:
  assumes "valid_rng g"
  shows "(let nodes = fst (ser_nodes g)
          in length nodes = 25
             \<and> (\<forall>p\<in>set nodes. (vec_x p)\<^sup>2 + (vec_z p)\<^sup>2 < 2.4\<^sup>2 \<and> \<bar>vec_y p\<bar> \<le> 0.7
                    \<and> vlength p < 2.5))"
  using ser_nodes_region [OF assms] ser_nodes_length [of g]
  by (simp add: Let_def list_all_iff node_region_def)

text \<open>The theorem at the stream of zeros, at the first node.\<close>

theorem ser_nodes_in_region_witness:
  "valid_rng zero_rng
   \<and> fst (ser_nodes zero_rng) ! 0 = (0, - 0.7, 0)
   \<and> vlength (fst (ser_nodes zero_rng) ! 0) < 2.5"
proof -
  have v: "valid_rng zero_rng" by (simp add: valid_rng_def zero_rng_def)
  have n: "fst (ser_nodes zero_rng) ! 0 = (0, - 0.7, 0)"
    by (simp add: ser_nodes_first ser_node_def random_random_def zero_rng_def Let_def)
  have "fst (ser_nodes zero_rng) ! 0 \<in> set (fst (ser_nodes zero_rng))"
    by (rule nth_mem) (simp add: ser_nodes_length)
  with ser_nodes_in_region [OF v, unfolded Let_def]
  have "vlength (fst (ser_nodes zero_rng) ! 0) < 2.5" by blast
  with v n show ?thesis by blast
qed

text \<open>
  Claim C5 as stated fails: a node need not be near the shell of radius 1.9 to 2.4.
  With the polar variate 0 and the height variate \<open>1/2\<close> the first node is the centre
  of the cell itself.
\<close>

theorem ser_node_at_centre:
  "valid_rng centre_rng \<and> vlength (fst (ser_nodes centre_rng) ! 0) = 0"
proof -
  have "fst (ser_nodes centre_rng) ! 0 = (0, 0, 0)"
    by (simp add: ser_nodes_first ser_node_def random_random_def centre_rng_def Let_def)
  then show ?thesis by (simp add: valid_rng_def centre_rng_def)
qed

section \<open>The ribosomes of the rough ER\<close>

lemma random_uniform_range:
  assumes "valid_rng g" and "a \<le> b"
  shows "a \<le> fst (random_uniform a b g)" and "fst (random_uniform a b g) \<le> b"
    and "valid_rng (snd (random_uniform a b g))"
proof -
  let ?u = "draws g (cursor g)"
  from assms(1) have u: "0 \<le> ?u" "?u < 1" by (simp_all add: valid_rng_def)
  have f: "fst (random_uniform a b g) = a + (b - a) * ?u"
    by (simp add: random_uniform_def random_random_def)
  from assms(2) u have "0 \<le> (b - a) * ?u" by simp
  then show "a \<le> fst (random_uniform a b g)" by (simp add: f)
  from assms(2) u have "(b - a) * ?u \<le> (b - a) * 1"
    by (intro mult_left_mono) simp_all
  then show "fst (random_uniform a b g) \<le> b" by (simp add: f)
  show "valid_rng (snd (random_uniform a b g))"
    using assms(1) by (simp add: random_uniform_def random_random_def valid_rng_def)
qed

lemma random_choice_sign:
  assumes "valid_rng g"
  shows "fst (random_choice [- 1, 1 :: real] g) = - 1 \<or> fst (random_choice [- 1, 1 :: real] g) = 1"
    and "valid_rng (snd (random_choice xs g))"
proof -
  let ?u = "draws g (cursor g)"
  from assms have u: "0 \<le> ?u" "?u < 1" by (simp_all add: valid_rng_def)
  then have "0 \<le> \<lfloor>?u * 2\<rfloor>" "\<lfloor>?u * 2\<rfloor> < 2" by (simp_all add: floor_less_iff)
  then have "nat \<lfloor>?u * 2\<rfloor> = 0 \<or> nat \<lfloor>?u * 2\<rfloor> = 1" by linarith
  then show "fst (random_choice [- 1, 1 :: real] g) = - 1
             \<or> fst (random_choice [- 1, 1 :: real] g) = 1"
    by (auto simp: random_choice_def random_random_def)
  show "valid_rng (snd (random_choice xs g))"
    using assms by (simp add: random_choice_def random_random_def valid_rng_def)
qed

lemma ribosome_location_beside:
  assumes v: "valid_rng g" and h: "0 \<le> half_x st" "0 \<le> half_y st"
  shows "beside_sheet st loc (fst (ribosome_location st loc g))"
    and "valid_rng (snd (ribosome_location st loc g))"
proof -
  define g1 g2 where "g1 = snd (random_uniform (- half_x st) (half_x st) g)"
    and "g2 = snd (random_uniform (- half_y st) (half_y st) g1)"
  define dx dy side where "dx = fst (random_uniform (- half_x st) (half_x st) g)"
    and "dy = fst (random_uniform (- half_y st) (half_y st) g1)"
    and "side = fst (random_choice [- 1, 1 :: real] g2)"
  have v1: "valid_rng g1" unfolding g1_def using v h(1) by (intro random_uniform_range) simp_all
  have v2: "valid_rng g2" unfolding g2_def using v1 h(2) by (intro random_uniform_range) simp_all
  have dx: "- half_x st \<le> dx" "dx \<le> half_x st"
    unfolding dx_def using v h(1) by (intro random_uniform_range; simp)+
  have dy: "- half_y st \<le> dy" "dy \<le> half_y st"
    unfolding dy_def using v1 h(2) by (intro random_uniform_range; simp)+
  have side: "side = - 1 \<or> side = 1"
    unfolding side_def using v2 by (rule random_choice_sign)
  have p: "fst (ribosome_location st loc g)
             = (vec_x loc + dx, vec_y loc + dy, vec_z loc + 0.025 * side)"
    and g3: "snd (ribosome_location st loc g) = snd (random_choice [- 1, 1 :: real] g2)"
    by (simp_all add: ribosome_location_def split_beta dx_def dy_def side_def g1_def g2_def)
  show "beside_sheet st loc (fst (ribosome_location st loc g))"
    unfolding p beside_sheet_def using dx dy side by auto
  show "valid_rng (snd (ribosome_location st loc g))"
    unfolding g3 using v2 by (rule random_choice_sign)
qed


lemma appends_one:
  assumes "I (rng w) \<Longrightarrow> I (rng w')" and "objects w' = objects w @ [ob]"
    and "I (rng w) \<Longrightarrow> Q ob"
  shows "appends I Q w w'"
  using assms by (simp add: appends_def)

lemma appends_mono:
  assumes "appends I Q w w'" and "\<And>ob. Q ob \<Longrightarrow> Q' ob"
  shows "appends I Q' w w'"
  using assms by (fastforce simp: appends_def)

text \<open>The objects of a stack: named as its cisternae or its ribosomes, the latter placed.\<close>

lemma rer_ribosome_appends:
  assumes h: "0 \<le> half_x st" "0 \<le> half_y st"
  shows "appends valid_rng
           (\<lambda>ob. fst (name ob) \<in> {cisterna_name st, ribosome_name st} \<and> ribosome_placed st ob)
           w (rer_ribosome c st (cisterna_location st i) i r w)"
proof (rule appends_one)
  let ?p = "fst (ribosome_location st (cisterna_location st i) (rng w))"
  let ?ob = "\<lparr>name = (ribosome_name st, [i, r]), otype = MESH, geometry = UVSphere 0.018,
       materials = [mat_ribosome], users_collection = [c], location = ?p,
       rotation_euler = (0, 0, 0), scale = (1, 1, 1), modifiers = [], select = True\<rparr>"
  show "objects (rer_ribosome c st (cisterna_location st i) i r w) = objects w @ [?ob]"
    by (simp add: rer_ribosome_def split_beta)
  show "valid_rng (rng (rer_ribosome c st (cisterna_location st i) i r w))"
    if "valid_rng (rng w)"
    using ribosome_location_beside(2) [OF that h] by (simp add: rer_ribosome_def split_beta)
  show "fst (name ?ob) \<in> {cisterna_name st, ribosome_name st} \<and> ribosome_placed st ?ob"
    if "valid_rng (rng w)"
    using ribosome_location_beside(1) [OF that h]
    by (simp add: ribosome_placed_def first_index_def)
qed

lemma rer_cisterna_appends:
  assumes h: "0 \<le> half_x st" "0 \<le> half_y st" and n: "cisterna_name st \<noteq> ribosome_name st"
  shows "appends valid_rng
           (\<lambda>ob. fst (name ob) \<in> {cisterna_name st, ribosome_name st} \<and> ribosome_placed st ob)
           w (rer_cisterna c st i w)"
proof -
  let ?Q = "\<lambda>ob. fst (name ob) \<in> {cisterna_name st, ribosome_name st} \<and> ribosome_placed st ob"
  define rot :: vec where "rot = (0.1, rot_y st, (fst (draw random_random w) - 0.5) * 0.1)"
  define cis where "cis = create_er_cisterna (sheet_width st) (sheet_height st)
                        (cisterna_location st i) rot (snd (draw random_random w))"
  define w3 where "w3 = into_collection c (fst cis)
                           (set_name (fst cis) (cisterna_name st, [i]) (snd cis))"
  have r: "rer_cisterna c st i w
             = fold (rer_ribosome c st (cisterna_location st i) i) [0..<ribosomes st] w3"
    by (simp add: rer_cisterna_def split_beta Let_def w3_def cis_def rot_def)
  have "\<exists>ob. objects w3 = objects w @ [ob] \<and> fst (name ob) = cisterna_name st"
    by (simp add: w3_def cis_def create_er_cisterna_def attribute_defs split_beta Let_def)
  then obtain ob where ob: "objects w3 = objects w @ [ob]" "fst (name ob) = cisterna_name st"
    by blast
  have g: "rng w3 = snd (random_random (rng w))"
    by (simp add: w3_def cis_def create_er_cisterna_def attribute_defs split_beta Let_def)
  have "appends valid_rng ?Q w w3"
  proof (rule appends_one)
    show "objects w3 = objects w @ [ob]" by (rule ob)
    show "valid_rng (rng w3)" if "valid_rng (rng w)"
      using that by (simp add: g random_random_def valid_rng_def)
    show "?Q ob" using ob(2) n by (simp add: ribosome_placed_def)
  qed
  moreover have "appends valid_rng ?Q w3
      (fold (rer_ribosome c st (cisterna_location st i) i) [0..<ribosomes st] w3)"
    by (rule fold_appends) (rule rer_ribosome_appends [OF h])
  ultimately show ?thesis
    unfolding r by (rule appends_trans)
qed

lemma rer_stack_loop_appends:
  assumes "0 \<le> half_x st" "0 \<le> half_y st" "cisterna_name st \<noteq> ribosome_name st"
  shows "appends valid_rng
           (\<lambda>ob. fst (name ob) \<in> {cisterna_name st, ribosome_name st} \<and> ribosome_placed st ob)
           w (rer_stack_loop c st w)"
  unfolding rer_stack_loop_def
  by (rule fold_appends) (rule rer_cisterna_appends [OF assms])

lemma create_rough_er_appends:
  "appends valid_rng
     (\<lambda>ob. ribosome_placed stack1 ob \<and> ribosome_placed stack2 ob \<and> ribosome_placed stack3 ob)
     w (create_rough_er w)"
proof -
  let ?Q = "\<lambda>ob. ribosome_placed stack1 ob \<and> ribosome_placed stack2 ob
                \<and> ribosome_placed stack3 ob"
  have 1: "appends valid_rng ?Q w (rer_stack_loop c stack1 w)" for c w
    by (rule appends_mono [OF rer_stack_loop_appends [of stack1]])
       (auto simp: stack1_def stack2_def stack3_def ribosome_placed_def)
  have 2: "appends valid_rng ?Q w (rer_stack_loop c stack2 w)" for c w
    by (rule appends_mono [OF rer_stack_loop_appends [of stack2]])
       (auto simp: stack1_def stack2_def stack3_def ribosome_placed_def)
  have 3: "appends valid_rng ?Q w (rer_stack_loop c stack3 w)" for c w
    by (rule appends_mono [OF rer_stack_loop_appends [of stack3]])
       (auto simp: stack1_def stack2_def stack3_def ribosome_placed_def)
  define w0 where "w0 = snd (new_scene_collection ''RoughER'' w)"
  have 0: "appends valid_rng ?Q w w0"
    by (simp add: appends_def w0_def)
  have r: "create_rough_er w
      = rer_stack_loop (Coll (length (collections w))) stack3
          (rer_stack_loop (Coll (length (collections w))) stack2
            (rer_stack_loop (Coll (length (collections w))) stack1 w0))"
    by (simp add: create_rough_er_def split_beta w0_def)
  show ?thesis
    unfolding r
    by (rule appends_trans [OF 0 appends_trans [OF 1 appends_trans [OF 2 3]]])
qed


text \<open>
  Claim C6, as amended. For every rough-ER cisterna, each ribosome sphere scattered
  around it is placed within the bounding box of its stack around the location of
  the cisterna (half-widths 0.4 and 0.25, 0.35 and 0.22, 0.3 and 0.2), at the fixed
  offset 0.025 below or above that location. This holds for the location computed
  for a ribosome at any sheet location, and for every ribosome object of the three
  stacks with respect to the cisterna whose number it carries in its name. The side
  is picked at random for each ribosome; nothing makes consecutive ribosomes
  alternate.
\<close>

theorem ribosomes_beside_sheets:
  assumes "valid_rng (rng w)"
  shows "(\<forall>st\<in>{stack1, stack2, stack3}.
            beside_sheet st loc (fst (ribosome_location st loc (rng w))))
         \<and> (\<forall>ob\<in>set (created create_rough_er w). \<forall>st\<in>{stack1, stack2, stack3}.
               fst (name ob) = ribosome_name st \<longrightarrow>
               beside_sheet st (cisterna_location st (first_index ob)) (location ob))"
proof (intro conjI ballI impI)
  fix st assume "st \<in> {stack1, stack2, stack3}"
  then have "0 \<le> half_x st" "0 \<le> half_y st"
    by (auto simp: stack1_def stack2_def stack3_def)
  with assms show "beside_sheet st loc (fst (ribosome_location st loc (rng w)))"
    by (rule ribosome_location_beside)
next
  fix ob st
  assume ob: "ob \<in> set (created create_rough_er w)" and st: "st \<in> {stack1, stack2, stack3}"
    and n: "fst (name ob) = ribosome_name st"
  from appends_created [OF create_rough_er_appends assms ob]
  have "ribosome_placed stack1 ob" "ribosome_placed stack2 ob" "ribosome_placed stack3 ob"
    by simp_all
  with st have "ribosome_placed st ob" by auto
  with n show "beside_sheet st (cisterna_location st (first_index ob)) (location ob)"
    by (simp add: ribosome_placed_def)
qed

text \<open>
  The theorem at the stream of zeros: at the location of the first cisterna of the
  first stack, and at the second object that the generator creates in the empty
  world, the first ribosome of that cisterna.
\<close>

theorem ribosomes_beside_sheets_witness:
  "valid_rng (rng empty_world)
   \<and> fst (ribosome_location stack1 (cisterna_location stack1 0) (rng empty_world))
       = (1, - 0.35, 0.275)
   \<and> beside_sheet stack1 (cisterna_location stack1 0)
         (fst (ribosome_location stack1 (cisterna_location stack1 0) (rng empty_world)))
   \<and> fst (name (created create_rough_er empty_world ! 1)) = ribosome_name stack1
   \<and> beside_sheet stack1
         (cisterna_location stack1 (first_index (created create_rough_er empty_world ! 1)))
         (location (created create_rough_er empty_world ! 1))"
proof -
  let ?ob = "created create_rough_er empty_world ! 1"
  have v: "valid_rng (rng empty_world)"
    by (simp add: empty_world_def zero_rng_def valid_rng_def)
  have p: "fst (ribosome_location stack1 (cisterna_location stack1 0) (rng empty_world))
             = (1, - 0.35, 0.275)"
    by (simp add: ribosome_location_def random_uniform_def random_choice_def random_random_def
        cisterna_location_def stack1_def empty_world_def zero_rng_def)
  note t = ribosomes_beside_sheets [OF v, of "cisterna_location stack1 0"]
  from t have b: "beside_sheet stack1 (cisterna_location stack1 0)
         (fst (ribosome_location stack1 (cisterna_location stack1 0) (rng empty_world)))"
    by simp
  have c: "created create_rough_er empty_world = objects (create_rough_er empty_world)"
    by (simp add: created_def empty_world_def)
  have "templates empty_world = []" by (simp add: templates_def empty_world_def)
  with create_rough_er_templates [of empty_world]
  have "\<exists>rest. templates (create_rough_er empty_world)
          = ''RER_Stack1_Cisterna{}'' # ''Ribosome_S1C{}_{}'' # rest"
    by (simp add: eval_nat_numeral)
  then obtain rest where
    "templates (create_rough_er empty_world)
       = ''RER_Stack1_Cisterna{}'' # ''Ribosome_S1C{}_{}'' # rest"
    by blast
  then have "map (\<lambda>ob. fst (name ob)) (created create_rough_er empty_world)
       = ''RER_Stack1_Cisterna{}'' # ''Ribosome_S1C{}_{}'' # rest"
    by (simp add: c templates_def)
  then have l: "1 < length (created create_rough_er empty_world)"
    and n: "fst (name ?ob) = ''Ribosome_S1C{}_{}''"
    by (auto simp: map_eq_Cons_conv)
  from l have m: "?ob \<in> set (created create_rough_er empty_world)" by (rule nth_mem)
  from n have n': "fst (name ?ob) = ribosome_name stack1" by (simp add: stack1_def)
  from t m n' have "beside_sheet stack1 (cisterna_location stack1 (first_index ?ob)) (location ?ob)"
    by blast
  with v p b n' show ?thesis by blast
qed

text \<open>
  Claim C6 as stated fails: with the stream of zeros the first two ribosomes of the
  first cisterna of the first stack, whose location has \<open>z = 0.3\<close>, are both placed
  below the sheet, at \<open>z = 0.275\<close>. The world is the empty one with the collection of
  the rough ER made in it.
\<close>

theorem consecutive_ribosomes_same_side:
  "valid_rng (rng empty_world)
   \<and> vec_z (cisterna_location stack1 0) = 0.3
   \<and> name (objects (fold (rer_ribosome (Coll 0) stack1 (cisterna_location stack1 0) 0) [0..<2]
                     (snd (new_scene_collection ''RoughER'' empty_world))) ! 0)
       = (''Ribosome_S1C{}_{}'', [0, 0])
   \<and> name (objects (fold (rer_ribosome (Coll 0) stack1 (cisterna_location stack1 0) 0) [0..<2]
                     (snd (new_scene_collection ''RoughER'' empty_world))) ! 1)
       = (''Ribosome_S1C{}_{}'', [0, 1])
   \<and> vec_z (location (objects (fold (rer_ribosome (Coll 0) stack1 (cisterna_location stack1 0) 0)
                     [0..<2] (snd (new_scene_collection ''RoughER'' empty_world))) ! 0)) = 0.275
   \<and> vec_z (location (objects (fold (rer_ribosome (Coll 0) stack1 (cisterna_location stack1 0) 0)
                     [0..<2] (snd (new_scene_collection ''RoughER'' empty_world))) ! 1)) = 0.275"
proof -
  have u: "[0..<2] = [0, 1]" by (simp add: upt_rec)
  show ?thesis
    by (simp add: u rer_ribosome_def split_beta ribosome_location_def random_uniform_def
        random_choice_def random_random_def cisterna_location_def stack1_def empty_world_def
        zero_rng_def valid_rng_def)
qed
section \<open>The centrosome\<close>

lemma centriole_tube_objects:
  "objects (centriole_tube g c i t w) = objects w @ objects (centriole_tube g c i t empty_world)"
  by (simp add: centriole_tube_def attribute_defs split_beta Let_def empty_world_def)

lemma centriole_tube_new:
  "objects (centriole_tube g c i t empty_world) =
     [\<lparr>name = (''Centriole{}_Triplet{}_{}'', [c, i, t]), otype = MESH,
       geometry = Cylinder 0.012 0.2, materials = [mat_centriole],
       users_collection = [g],
       location = vadd (vadd centrosome_base (0, real c * 0.18, 0))
                    (cos ((real i / 9) * 2 * pi + real t * 0.08) * (0.07 + real t * 0.015), 0,
                     sin ((real i / 9) * 2 * pi + real t * 0.08) * (0.07 + real t * 0.015)),
       rotation_euler = (if c = 1 then (pi / 2, 0, 0) else (0, 0, 0)),
       scale = (1, 1, 1), modifiers = [], select = True\<rparr>]"
  by (simp add: centriole_tube_def attribute_defs split_beta Let_def empty_world_def)

lemma create_centrosome_objects:
  "objects (create_centrosome w) = objects w @
     concat (map (\<lambda>c. concat (map (\<lambda>i. concat (map (\<lambda>t.
       objects (centriole_tube (Coll (length (collections w))) c i t empty_world))
         [0..<3])) [0..<9])) [0..<2])"
proof -
  have "objects (fold (\<lambda>c. fold (\<lambda>i. fold (centriole_tube g c i) [0..<3]) [0..<9]) [0..<2] w0)
        = objects w0 @ concat (map (\<lambda>c. concat (map (\<lambda>i. concat (map (\<lambda>t.
            objects (centriole_tube g c i t empty_world)) [0..<3])) [0..<9])) [0..<2])" for g w0
    by (intro fold_objects centriole_tube_objects)
  then show ?thesis
    by (simp add: create_centrosome_def split_beta)
qed

lemma created_centrosome:
  "created create_centrosome w =
     concat (map (\<lambda>c. concat (map (\<lambda>i. concat (map (\<lambda>t.
       objects (centriole_tube (Coll (length (collections w))) c i t empty_world))
         [0..<3])) [0..<9])) [0..<2])"
  by (simp add: created_def create_centrosome_objects)

lemma axis_unrotated: "euler_rotate (0, 0, 0) (0, 0, 1) = (0, 0, 1)"
  by simp

lemma axis_quarter_turn: "euler_rotate (pi / 2, 0, 0) (0, 0, 1) = (0, - 1, 0)"
  by simp

lemma upt_2: "[0..<2] = [0, 1]" by (simp add: upt_rec)
lemma upt_3: "[0..<3] = [0, 1, 2]" by (simp add: upt_rec)
lemma upt_9: "[0..<9] = [0, 1, 2, 3, 4, 5, 6, 7, 8]" by (simp add: upt_rec)

lemma centrosome_tube_facts:
  assumes "ob \<in> set (created create_centrosome w)"
  shows "(first_index ob = 0 \<or> first_index ob = 1)
       \<and> rotation_euler ob = (if first_index ob = 1 then (pi / 2, 0, 0) else (0, 0, 0))
       \<and> vec_y (location ob) = - 0.5 + real (first_index ob) * 0.18
       \<and> vec_y (radial ob) = 0
       \<and> users_collection ob = [Coll (length (collections w))]
       \<and> materials ob = [mat_centriole]
       \<and> fst (name ob) = ''Centriole{}_Triplet{}_{}''"
  using assms
  by (auto simp: created_centrosome centriole_tube_new first_index_def centrosome_base_def
      radial_def centriole_centre_def)

lemma centrosome_counts:
  "length (created create_centrosome w) = 54"
  "length (filter (\<lambda>ob. first_index ob = 0) (created create_centrosome w)) = 27"
  "length (filter (\<lambda>ob. first_index ob = 1) (created create_centrosome w)) = 27"
  by (simp_all add: created_centrosome centriole_tube_new first_index_def upt_2 upt_3 upt_9)

lemma second_tube:
  "created create_centrosome w ! 1 =
     \<lparr>name = (''Centriole{}_Triplet{}_{}'', [0, 0, 1]), otype = MESH,
       geometry = Cylinder 0.012 0.2, materials = [mat_centriole],
       users_collection = [Coll (length (collections w))],
       location = vadd (vadd centrosome_base (0, 0, 0)) (cos 0.08 * 0.085, 0, sin 0.08 * 0.085),
       rotation_euler = (0, 0, 0),
       scale = (1, 1, 1), modifiers = [], select = True\<rparr>"
  by (simp add: created_centrosome centriole_tube_new upt_2 upt_3 upt_9)

lemma sin_eight_hundredths: "sin (0.08 :: real) > 0"
proof (rule sin_gt_zero)
  show "(0 :: real) < 0.08" by simp
  have "(0.08 :: real) < 2" by simp
  also have "\<dots> \<le> pi" by (rule pi_ge_two)
  finally show "(0.08 :: real) < pi" .
qed

lemma second_tube_radial:
  "first_index (created create_centrosome w ! 1) = 0"
  "cylinder_axis (created create_centrosome w ! 1) = (0, 0, 1)"
  "radial (created create_centrosome w ! 1) = (cos 0.08 * 0.085, 0, sin 0.08 * 0.085)"
  unfolding first_index_def cylinder_axis_def radial_def second_tube
  by (simp_all add: centriole_centre_def centrosome_base_def)

lemma first_centriole_no_barrel:
  "\<not> barrel axis (filter (\<lambda>ob. first_index ob = 0) (created create_centrosome w))"
proof
  let ?first = "filter (\<lambda>ob. first_index ob = 0) (created create_centrosome w)"
  let ?a = "created create_centrosome w ! 1"
  assume b: "barrel axis ?first"
  have "?a \<in> set (created create_centrosome w)"
    by (rule nth_mem) (simp add: centrosome_counts)
  then have m: "?a \<in> set ?first" using second_tube_radial(1) [of w] by simp
  from b m have ax: "cylinder_axis ?a = axis \<or> cylinder_axis ?a = smult (- 1) axis"
    and r: "vdot (radial ?a) axis = 0"
    by (auto simp: barrel_def list_all_iff)
  obtain x y z where axis: "axis = (x, y, z)" by (cases axis)
  from ax have "z = 1 \<or> z = - 1"
    unfolding second_tube_radial axis by auto
  moreover from r have "cos 0.08 * 0.085 * x + sin 0.08 * 0.085 * z = 0"
    unfolding second_tube_radial axis by simp
  moreover from ax have "x = 0" unfolding second_tube_radial axis by auto
  ultimately have "sin (0.08 :: real) = 0" by auto
  with sin_eight_hundredths show False by simp
qed

lemma second_centriole_barrel:
  "barrel (0, 1, 0) (filter (\<lambda>ob. first_index ob = 1) (created create_centrosome w))"
proof -
  have "cylinder_axis b = smult (- 1) (0, 1, 0) \<and> vdot (radial b) (0, 1, 0) = 0"
    if "b \<in> set (filter (\<lambda>ob. first_index ob = 1) (created create_centrosome w))" for b
  proof -
    from that centrosome_tube_facts [of b w]
    have "rotation_euler b = (pi / 2, 0, 0)" and y: "vec_y (radial b) = 0" by simp_all
    then have "cylinder_axis b = smult (- 1) (0, 1, 0)" by (simp add: cylinder_axis_def)
    moreover obtain p q r where "radial b = (p, q, r)" by (cases "radial b")
    with y have "vdot (radial b) (0, 1, 0) = 0" by simp
    ultimately show ?thesis by simp
  qed
  then show ?thesis by (simp add: barrel_def list_all_iff)
qed

text \<open>
  Claim C7, what the code does. The centrosome has 54 tubes, 27 for each of its two
  centrioles, and the extra rotation is applied to the tubes of the second centriole
  only. The centres of the tubes of either centriole lie around the centre of the
  centriole in a plane \<open>y = const\<close> (the conditional y offset contributes 0 for both),
  so the two rings are parallel. The tubes of the second centriole are turned a
  quarter about the x axis and run along the y axis, at right angles to their ring:
  they form a barrel along y. The tubes of the first centriole are unrotated and run
  along the z axis, which lies in the plane of their ring: they form no barrel, along
  no axis. Only tube by tube are the long axes of the two centrioles perpendicular.
\<close>

theorem first_centriole_flat:
  "(let tubes = created create_centrosome w;
        first = filter (\<lambda>ob. first_index ob = 0) tubes;
        second = filter (\<lambda>ob. first_index ob = 1) tubes
    in length tubes = 54 \<and> length first = 27 \<and> length second = 27
       \<and> (\<forall>a\<in>set first. rotation_euler a = (0, 0, 0) \<and> cylinder_axis a = (0, 0, 1)
                          \<and> vec_y (location a) = - 0.5 \<and> vec_y (radial a) = 0)
       \<and> (\<forall>b\<in>set second. rotation_euler b = (pi / 2, 0, 0) \<and> cylinder_axis b = (0, - 1, 0)
                          \<and> vec_y (location b) = - 0.5 + 0.18 \<and> vec_y (radial b) = 0)
       \<and> (\<forall>a\<in>set first. \<forall>b\<in>set second. vdot (cylinder_axis a) (cylinder_axis b) = 0)
       \<and> barrel (0, 1, 0) second
       \<and> (\<forall>axis. \<not> barrel axis first))"
proof -
  have a: "rotation_euler a = (0, 0, 0) \<and> cylinder_axis a = (0, 0, 1) \<and> vec_y (location a) = - 0.5
           \<and> vec_y (radial a) = 0"
    if "a \<in> set (filter (\<lambda>ob. first_index ob = 0) (created create_centrosome w))" for a
    using that centrosome_tube_facts [of a w] by (simp add: cylinder_axis_def)
  have b: "rotation_euler b = (pi / 2, 0, 0) \<and> cylinder_axis b = (0, - 1, 0)
           \<and> vec_y (location b) = - 0.5 + 0.18 \<and> vec_y (radial b) = 0"
    if "b \<in> set (filter (\<lambda>ob. first_index ob = 1) (created create_centrosome w))" for b
    using that centrosome_tube_facts [of b w] by (simp add: cylinder_axis_def)
  have c: "vdot (cylinder_axis a) (cylinder_axis b) = 0"
    if "a \<in> set (filter (\<lambda>ob. first_index ob = 0) (created create_centrosome w))"
      and "b \<in> set (filter (\<lambda>ob. first_index ob = 1) (created create_centrosome w))" for a b
    using a [OF that(1)] b [OF that(2)] by simp
  show ?thesis
    unfolding Let_def
    using a b c centrosome_counts [of w] second_centriole_barrel [of w]
      first_centriole_no_barrel [of _ w]
    by blast
qed

text \<open>
  The theorem in the empty world: at the first tube of each centriole (the tubes 0
  and 27 in the order of creation), and at the second tube of the first centriole,
  which runs along z and whose centre lies off the centre of the ring in the
  direction of z too, so that the first centriole is no barrel along z.
\<close>

theorem first_centriole_flat_witness:
  "first_index (created create_centrosome empty_world ! 0) = 0
   \<and> first_index (created create_centrosome empty_world ! 27) = 1
   \<and> cylinder_axis (created create_centrosome empty_world ! 0) = (0, 0, 1)
   \<and> cylinder_axis (created create_centrosome empty_world ! 27) = (0, - 1, 0)
   \<and> vec_y (radial (created create_centrosome empty_world ! 0)) = 0
   \<and> vec_y (radial (created create_centrosome empty_world ! 27)) = 0
   \<and> cylinder_axis (created create_centrosome empty_world ! 1) = (0, 0, 1)
   \<and> vdot (radial (created create_centrosome empty_world ! 1)) (0, 0, 1) = sin 0.08 * 0.085
   \<and> \<not> barrel (0, 0, 1)
         (filter (\<lambda>ob. first_index ob = 0) (created create_centrosome empty_world))"
proof -
  let ?tubes = "created create_centrosome empty_world"
  have n: "length ?tubes = 54" by (rule centrosome_counts)
  have i0: "first_index (?tubes ! 0) = 0" and i27: "first_index (?tubes ! 27) = 1"
    by (simp_all add: created_centrosome centriole_tube_new first_index_def upt_2 upt_3 upt_9)
  have m0: "?tubes ! 0 \<in> set (filter (\<lambda>ob. first_index ob = 0) ?tubes)"
    using i0 n by simp
  have m27: "?tubes ! 27 \<in> set (filter (\<lambda>ob. first_index ob = 1) ?tubes)"
    using i27 n by simp
  have t1: "cylinder_axis (?tubes ! 1) = (0, 0, 1)"
    "vdot (radial (?tubes ! 1)) (0, 0, 1) = sin 0.08 * 0.085"
    unfolding second_tube_radial by simp_all
  from first_centriole_flat [of empty_world, unfolded Let_def] m0 m27 i0 i27 t1
  show ?thesis by blast
qed
section \<open>The collections of the objects a generator adds\<close>

lemma groups_simps [simp]:
  "groups (snd (draw f w)) = groups w"
  "groups (snd (object_add ty dn geom loc w)) = groups w @ [[SceneCollection]]"
  "groups (snd (primitive_add dn geom loc w)) = groups w @ [[SceneCollection]]"
  "groups (snd (new_curve_object nm points bevel w)) = groups w @ [[]]"
  "groups (add_sphere radius loc nm mat c w) = groups w @ [[c]]"
  "groups (snd (new_scene_collection cn w)) = groups w"
  "groups (snd (collections_new cn w)) = groups w"
  by (simp_all add: groups_def)























section \<open>The script as a whole\<close>

lemma named_templates: "named t obs = obs \<Longrightarrow> set (map (\<lambda>ob. fst (name ob)) obs) \<subseteq> {t}"
  by (metis (mono_tags, lifting) filter_id_conv image_subsetI list.set_map named_def singletonI)

lemma create_smooth_er_templates:
  "\<exists>ts. templates (create_smooth_er w) = templates w @ ts
        \<and> set ts \<subseteq> {''SERTube_{}_{}'', ''SERJunction_{}''}"
proof -
  from create_smooth_er_objects [of w] obtain tubes junctions where
    o: "objects (create_smooth_er w) = objects w @ tubes @ junctions"
    and t: "named ''SERTube_{}_{}'' tubes = tubes"
    and j: "named ''SERJunction_{}'' junctions = junctions"
    by blast
  let ?ts = "map (\<lambda>ob. fst (name ob)) (tubes @ junctions)"
  have "templates (create_smooth_er w) = templates w @ ?ts"
    by (simp add: templates_def o)
  moreover have "set ?ts \<subseteq> {''SERTube_{}_{}'', ''SERJunction_{}''}"
    using named_templates [OF t] named_templates [OF j] by auto
  ultimately show ?thesis by blast
qed

subsection \<open>The mitochondria\<close>

lemma add_crista_raises:
  "raised (add_crista loc rot len radius outer i w) = Some TypeError"
  "templates (result_world (add_crista loc rot len radius outer i w)) = templates w @ [''Torus'']"
  "materials (last (objects (result_world (add_crista loc rot len radius outer i w)))) = []"
  "groups (result_world (add_crista loc rot len radius outer i w))
     = groups w @ [[SceneCollection]]"
  "collections (result_world (add_crista loc rot len radius outer i w)) = collections w"
  by (simp_all add: add_crista_def vector_rotate_def split_beta Let_def attribute_defs
      templates_def groups_def)

lemma for_range_first_raises:
  assumes "raised (body i w) = Some e"
  shows "for_range body (i # rest) w = Raise e (result_world (body i w))"
  using assms by (cases "body i w") simp_all

lemma crista_loop_raises:
  "for_range (add_crista loc rot len radius outer) [0..<4] w
     = Raise TypeError (result_world (add_crista loc rot len radius outer 0 w))"
proof -
  have u: "[0..<4] = 0 # [1..<4]" by (simp add: upt_conv_Cons)
  show ?thesis
    unfolding u by (rule for_range_first_raises) (rule add_crista_raises)
qed

lemma create_mitochondrion_raises:
  "raised (create_mitochondrion loc rot w) = Some TypeError"
  "templates (result_world (create_mitochondrion loc rot w))
     = templates w @ [''MitoOuter'', ''Torus'']"
  "materials (last (objects (result_world (create_mitochondrion loc rot w)))) = []"
  "groups (result_world (create_mitochondrion loc rot w))
     = groups w @ [[SceneCollection], [SceneCollection]]"
  "collections (result_world (create_mitochondrion loc rot w))
     = fresh_collection ''Mitochondrion'' False (collections w)"
proof -
  define len radius where "len = fst (draw (random_uniform 0.35 0.55) w)"
    and "radius = fst (draw (random_uniform 0.1 0.15)
                         (snd (draw (random_uniform 0.35 0.55) w)))"
  define w3 where "w3 = snd (primitive_add ''Cylinder'' (Cylinder radius len) loc
      (snd (draw (random_uniform 0.1 0.15) (snd (draw (random_uniform 0.35 0.55)
         (snd (collections_new ''Mitochondrion'' w)))))))"
  define w6 where "w6 = append_material (length (objects w)) mat_mitochondria_outer
      (set_name (length (objects w)) (''MitoOuter'', [])
        (add_modifier (length (objects w)) ''Subdivision'' 2
          (set_rotation (length (objects w)) rot w3)))"
  have t: "templates w6 = templates w @ [''MitoOuter'']"
    by (simp add: w6_def w3_def attribute_defs templates_def)
  have g: "groups w6 = groups w @ [[SceneCollection]]"
    by (simp add: w6_def w3_def attribute_defs groups_def)
  have c: "collections w6 = fresh_collection ''Mitochondrion'' False (collections w)"
    by (simp add: w6_def w3_def attribute_defs)
  have "create_mitochondrion loc rot w
      = Raise TypeError (result_world (add_crista loc rot len radius (length (objects w)) 0 w6))"
    by (simp add: create_mitochondrion_def split_beta Let_def crista_loop_raises
        len_def radius_def w3_def w6_def)
  then show "raised (create_mitochondrion loc rot w) = Some TypeError"
    "templates (result_world (create_mitochondrion loc rot w))
       = templates w @ [''MitoOuter'', ''Torus'']"
    "materials (last (objects (result_world (create_mitochondrion loc rot w)))) = []"
    "groups (result_world (create_mitochondrion loc rot w))
       = groups w @ [[SceneCollection], [SceneCollection]]"
    "collections (result_world (create_mitochondrion loc rot w))
       = fresh_collection ''Mitochondrion'' False (collections w)"
    by (simp_all add: add_crista_raises t g c)
qed

lemma mitochondrion_raises:
  "raised (mitochondrion c i w) = Some TypeError"
  "templates (result_world (mitochondrion c i w)) = templates w @ [''MitoOuter'', ''Torus'']"
  "materials (last (objects (result_world (mitochondrion c i w)))) = []"
  "groups (result_world (mitochondrion c i w))
     = groups w @ [[SceneCollection], [SceneCollection]]"
  "collections (result_world (mitochondrion c i w))
     = fresh_collection ''Mitochondrion'' False (collections w)"
proof -
  define pos w4 rot where "pos = fst (draw mitochondrion_position w)"
    and "w4 = snd (draw random_random (snd (draw random_random (snd (draw random_random
                (snd (draw mitochondrion_position w)))))))"
    and "rot = (fst (draw random_random (snd (draw mitochondrion_position w))) * pi,
                fst (draw random_random (snd (draw random_random
                       (snd (draw mitochondrion_position w))))) * pi,
                fst (draw random_random (snd (draw random_random (snd (draw random_random
                       (snd (draw mitochondrion_position w))))))) * pi)"
  have t: "templates w4 = templates w" "groups w4 = groups w" "collections w4 = collections w"
    by (simp_all add: w4_def)
  have "mitochondrion c i w = Raise TypeError (result_world (create_mitochondrion pos rot w4))"
    using create_mitochondrion_raises(1) [of pos rot w4]
    by (cases "create_mitochondrion pos rot w4")
       (simp_all add: mitochondrion_def split_beta Let_def pos_def rot_def w4_def)
  then show "raised (mitochondrion c i w) = Some TypeError"
    "templates (result_world (mitochondrion c i w)) = templates w @ [''MitoOuter'', ''Torus'']"
    "materials (last (objects (result_world (mitochondrion c i w)))) = []"
    "groups (result_world (mitochondrion c i w))
       = groups w @ [[SceneCollection], [SceneCollection]]"
    "collections (result_world (mitochondrion c i w))
       = fresh_collection ''Mitochondrion'' False (collections w)"
    by (simp_all add: create_mitochondrion_raises t)
qed

lemma create_mitochondria_first:
  "create_mitochondria w
     = Raise TypeError (result_world (mitochondrion (Coll (length (collections w))) 0
         (snd (new_scene_collection ''Mitochondria'' w))))"
proof -
  have u: "[0..<12] = 0 # [1..<12]" by (simp add: upt_conv_Cons)
  define w0 where "w0 = snd (new_scene_collection ''Mitochondria'' w)"
  have "for_range (mitochondrion (Coll (length (collections w)))) (0 # [1..<12]) w0
        = Raise TypeError (result_world (mitochondrion (Coll (length (collections w))) 0 w0))"
    by (rule for_range_first_raises) (rule mitochondrion_raises)
  then show ?thesis
    unfolding create_mitochondria_def u w0_def by (simp add: split_beta)
qed

lemma create_mitochondria_raises:
  "raised (create_mitochondria w) = Some TypeError"
  "templates (result_world (create_mitochondria w)) = templates w @ [''MitoOuter'', ''Torus'']"
  "materials (last (objects (result_world (create_mitochondria w)))) = []"
  "groups (result_world (create_mitochondria w))
     = groups w @ [[SceneCollection], [SceneCollection]]"
  "collections (result_world (create_mitochondria w))
     = fresh_collection ''Mitochondrion'' False
         (fresh_collection ''Mitochondria'' True (collections w))"
  by (simp_all add: create_mitochondria_first mitochondrion_raises)


subsection \<open>A run of the script\<close>


lemma build_cell_raises:
  "raised (build_cell w) = Some TypeError"
  "materials (last (objects (result_world (build_cell w)))) = []"
  "\<exists>ts. templates (result_world (build_cell w)) = templates w
       @ [''CellMembrane'', ''NuclearEnvelope'', ''Nucleoplasm'', ''Nucleolus'']
       @ replicate 10 ''Chromatin{}''
       @ concat (replicate 5 (''RER_Stack1_Cisterna{}'' # replicate 20 ''Ribosome_S1C{}_{}''))
       @ concat (replicate 4 (''RER_Stack2_Cisterna{}'' # replicate 15 ''Ribosome_S2C{}_{}''))
       @ concat (replicate 3 (''RER_Stack3_Cisterna{}'' # replicate 12 ''Ribosome_S3C{}_{}''))
       @ ts @ [''MitoOuter'', ''Torus'']
     \<and> set ts \<subseteq> {''SERTube_{}_{}'', ''SERJunction_{}''}"
proof -
  define w3 where "w3 = create_rough_er (create_nucleus (create_membrane w))"
  define w4 where "w4 = create_smooth_er w3"
  have b: "build_cell w = Raise TypeError (result_world (create_mitochondria w4))"
    using create_mitochondria_raises(1) [of w4]
    by (cases "create_mitochondria w4") (simp_all add: build_cell_def Let_def w4_def w3_def)
  show "raised (build_cell w) = Some TypeError" by (simp add: b)
  show "materials (last (objects (result_world (build_cell w)))) = []"
    by (simp add: b create_mitochondria_raises)
  from create_smooth_er_templates [of w3] obtain ts where
    ts: "templates w4 = templates w3 @ ts" "set ts \<subseteq> {''SERTube_{}_{}'', ''SERJunction_{}''}"
    unfolding w4_def by blast
  have "templates (result_world (build_cell w)) = templates w
       @ [''CellMembrane'', ''NuclearEnvelope'', ''Nucleoplasm'', ''Nucleolus'']
       @ replicate 10 ''Chromatin{}''
       @ concat (replicate 5 (''RER_Stack1_Cisterna{}'' # replicate 20 ''Ribosome_S1C{}_{}''))
       @ concat (replicate 4 (''RER_Stack2_Cisterna{}'' # replicate 15 ''Ribosome_S2C{}_{}''))
       @ concat (replicate 3 (''RER_Stack3_Cisterna{}'' # replicate 12 ''Ribosome_S3C{}_{}''))
       @ ts @ [''MitoOuter'', ''Torus'']"
    by (simp add: b create_mitochondria_raises ts(1) w3_def create_rough_er_templates
        create_nucleus_templates create_membrane_templates)
  with ts(2) show "\<exists>ts. templates (result_world (build_cell w)) = templates w
       @ [''CellMembrane'', ''NuclearEnvelope'', ''Nucleoplasm'', ''Nucleolus'']
       @ replicate 10 ''Chromatin{}''
       @ concat (replicate 5 (''RER_Stack1_Cisterna{}'' # replicate 20 ''Ribosome_S1C{}_{}''))
       @ concat (replicate 4 (''RER_Stack2_Cisterna{}'' # replicate 15 ''Ribosome_S2C{}_{}''))
       @ concat (replicate 3 (''RER_Stack3_Cisterna{}'' # replicate 12 ''Ribosome_S3C{}_{}''))
       @ ts @ [''MitoOuter'', ''Torus'']
     \<and> set ts \<subseteq> {''SERTube_{}_{}'', ''SERJunction_{}''}"
    by blast
qed

lemma clear_scene_objects: "scene_objects (clear_scene b) = []"
  by (simp add: clear_scene_def Let_def filter_empty_conv)

lemma clear_scene_collections: "data_collections (clear_scene b) = data_collections b"
  by (simp add: clear_scene_def Let_def)

lemma run_script_objects:
  "fst (run_script seed b)
     = raised (build_cell \<lparr>rng = seed, objects = [], collections = data_collections b\<rparr>)"
  "scene_objects (snd (run_script seed b))
     = objects (result_world
         (build_cell \<lparr>rng = seed, objects = [], collections = data_collections b\<rparr>))"
  "data_collections (snd (run_script seed b))
     = collections (result_world
         (build_cell \<lparr>rng = seed, objects = [], collections = data_collections b\<rparr>))"
  by (simp_all add: run_script_def script_def Let_def clear_scene_objects
      clear_scene_collections)


text \<open>
  Claim C1 fails on the code. Whatever the seed and the file the script starts in, the
  run ends with a \<^verbatim>\<open>TypeError\<close> in the first crista of the first mitochondrion. The
  scene it leaves has the 10 chromatin strands and the 5, 4 and 3 cisternae of the
  rough ER, but no object named as a mitochondrion, a Golgi cisterna or vesicle, a
  lysosome, a centriole tube, a free ribosome or a microtubule; and its last object,
  the torus of the crista, has no material.
\<close>

theorem generation_aborts:
  "fst (run_script seed b) = Some TypeError
   \<and> (let obs = scene_objects (snd (run_script seed b))
      in count_named ''Chromatin{}'' obs = 10
         \<and> count_named ''RER_Stack1_Cisterna{}'' obs = 5
         \<and> count_named ''RER_Stack2_Cisterna{}'' obs = 4
         \<and> count_named ''RER_Stack3_Cisterna{}'' obs = 3
         \<and> count_named ''Mitochondrion_{}'' obs = 0
         \<and> count_named ''MitoOuter'' obs = 1
         \<and> count_named ''GolgiCisterna_{}'' obs = 0
         \<and> count_named ''GolgiVesicle_{}'' obs = 0
         \<and> count_named ''Lysosome_{}'' obs = 0
         \<and> count_named ''Centriole{}_Triplet{}_{}'' obs = 0
         \<and> count_named ''FreeRibosome_{}'' obs = 0
         \<and> count_named ''Microtubule_{}'' obs = 0
         \<and> fst (name (last obs)) = ''Torus'' 
         \<and> materials (last obs) = [])"
proof -
  define w where "w = result_world
     (build_cell \<lparr>rng = seed, objects = [], collections = data_collections b\<rparr>)"
  from build_cell_raises(3) [of "\<lparr>rng = seed, objects = [],
      collections = data_collections b\<rparr>"] obtain ts where
    t: "templates w =
         [''CellMembrane'', ''NuclearEnvelope'', ''Nucleoplasm'', ''Nucleolus'']
       @ replicate 10 ''Chromatin{}''
       @ concat (replicate 5 (''RER_Stack1_Cisterna{}'' # replicate 20 ''Ribosome_S1C{}_{}''))
       @ concat (replicate 4 (''RER_Stack2_Cisterna{}'' # replicate 15 ''Ribosome_S2C{}_{}''))
       @ concat (replicate 3 (''RER_Stack3_Cisterna{}'' # replicate 12 ''Ribosome_S3C{}_{}''))
       @ ts @ [''MitoOuter'', ''Torus'']"
    and s: "set ts \<subseteq> {''SERTube_{}_{}'', ''SERJunction_{}''}"
    unfolding w_def by (auto simp: templates_def)
  have c: "count_list ts x = 0" if "x \<noteq> ''SERTube_{}_{}''" "x \<noteq> ''SERJunction_{}''" for x
    using s that by (intro count_list_absent) auto
  have o: "scene_objects (snd (run_script seed b)) = objects w"
    by (simp add: run_script_objects w_def)
  have counts: "count_named ''Chromatin{}'' (objects w) = 10"
    "count_named ''RER_Stack1_Cisterna{}'' (objects w) = 5"
    "count_named ''RER_Stack2_Cisterna{}'' (objects w) = 4"
    "count_named ''RER_Stack3_Cisterna{}'' (objects w) = 3"
    "count_named ''Mitochondrion_{}'' (objects w) = 0"
    "count_named ''MitoOuter'' (objects w) = 1"
    "count_named ''GolgiCisterna_{}'' (objects w) = 0"
    "count_named ''GolgiVesicle_{}'' (objects w) = 0"
    "count_named ''Lysosome_{}'' (objects w) = 0"
    "count_named ''Centriole{}_Triplet{}_{}'' (objects w) = 0"
    "count_named ''FreeRibosome_{}'' (objects w) = 0"
    "count_named ''Microtubule_{}'' (objects w) = 0"
    by (simp_all add: count_named_templates t c count_list_replicate
        count_list_concat_replicate)
  have l: "materials (last (objects w)) = []"
    unfolding w_def by (rule build_cell_raises)
  have "objects w \<noteq> []" using t by (auto simp: templates_def)
  then have "fst (name (last (objects w))) = last (templates w)"
    by (simp add: templates_def last_map)
  then have n: "fst (name (last (objects w))) = ''Torus''" by (simp add: t)
  show ?thesis
    unfolding Let_def o using counts l n
    by (simp add: run_script_objects build_cell_raises)
qed

text \<open>
  The generators after the mitochondria, which no run reaches, would add the 5 Golgi
  cisternae and 8 vesicles, the 10 lysosomes, the 54 centriole tubes, the 60 free
  ribosomes and the 18 microtubules.
\<close>

lemma later_generators_templates:
  "templates (create_cytoskeleton (create_free_ribosomes (create_centrosome
      (create_lysosomes (create_golgi w)))))
     = templates w @ replicate 5 ''GolgiCisterna_{}'' @ replicate 8 ''GolgiVesicle_{}''
       @ replicate 10 ''Lysosome_{}'' @ replicate 54 ''Centriole{}_Triplet{}_{}''
       @ replicate 60 ''FreeRibosome_{}'' @ replicate 18 ''Microtubule_{}''"
proof -
  have gc: "templates (golgi_cisterna g i w) = templates w @ [''GolgiCisterna_{}'']" for g i w
    by (simp add: golgi_cisterna_def attribute_defs split_beta Let_def templates_def)
  have gv: "templates (golgi_vesicle g i w) = templates w @ [''GolgiVesicle_{}'']" for g i w
    by (simp add: golgi_vesicle_def split_beta)
  have ly: "templates (lysosome g i w) = templates w @ [''Lysosome_{}'']" for g i w
    by (simp add: lysosome_def split_beta)
  have ct: "templates (centriole_tube g c i t w) = templates w @ [''Centriole{}_Triplet{}_{}'']"
    for g c i t w
    by (simp add: centriole_tube_def attribute_defs split_beta Let_def templates_def)
  have fr: "templates (free_ribosome g i w) = templates w @ [''FreeRibosome_{}'']" for g i w
    by (simp add: free_ribosome_def split_beta)
  have mt: "templates (microtubule g i w) = templates w @ [''Microtubule_{}'']" for g i w
    by (simp add: microtubule_def attribute_defs split_beta Let_def templates_def)
  have c3: "templates (fold (centriole_tube g c i) [0..<3] w)
              = templates w @ replicate 3 ''Centriole{}_Triplet{}_{}''" for g c i w
    by (simp add: fold_templates [OF ct] concat_replicate_single)
  have c9: "templates (fold (\<lambda>i. fold (centriole_tube g c i) [0..<3]) [0..<9] w)
              = templates w @ replicate 27 ''Centriole{}_Triplet{}_{}''" for g c w
    by (simp add: fold_templates [OF c3] concat_replicate_replicate)
  have cs: "templates (create_centrosome w)
              = templates w @ replicate 54 ''Centriole{}_Triplet{}_{}''" for w
    by (simp add: create_centrosome_def split_beta fold_templates [OF c9]
        concat_replicate_replicate)
  show ?thesis
    by (simp add: create_cytoskeleton_def create_free_ribosomes_def create_lysosomes_def
        create_golgi_def split_beta cs fold_templates [OF gc] fold_templates [OF gv]
        fold_templates [OF ly] fold_templates [OF fr] fold_templates [OF mt]
        concat_replicate_single)
qed
section \<open>The generator only moves forward\<close>

lemma later_refl [simp]: "later g g"
  by (simp add: later_def)





lemma draw_later:
  assumes "\<And>g. later g (snd (f g))"
  shows "later (rng w) (rng (snd (draw f w)))"
  by (simp add: assms)













section \<open>The same run with other collection handles\<close>

lemma rebase_simps [simp]:
  "rng (rebase n n' cs w) = rng w"
  "objects (rebase n n' cs w) = map (regroup n n') (objects w)"
  "collections (rebase n n' cs w) = cs"
  by (simp_all add: rebase_def)

lemma on_world_simps [simp]:
  "result_world (on_world f r) = f (result_world r)"
  "raised (on_world f r) = raised r"
  by (cases r; simp)+

lemma draw_rebase [simp]:
  "snd (draw f (rebase n n' cs w)) = rebase n n' cs (snd (draw f w))"
  by (simp add: draw_def split_beta rebase_def)

lemma object_add_rebase [simp]:
  "snd (object_add ty dn geom loc (rebase n n' cs w))
     = rebase n n' cs (snd (object_add ty dn geom loc w))"
  by (simp add: object_add_def rebase_def regroup_def)

lemma primitive_add_rebase [simp]:
  "snd (primitive_add dn geom loc (rebase n n' cs w))
     = rebase n n' cs (snd (primitive_add dn geom loc w))"
  by (simp add: primitive_add_def)

lemma new_curve_object_rebase [simp]:
  "snd (new_curve_object nm points bevel (rebase n n' cs w))
     = rebase n n' cs (snd (new_curve_object nm points bevel w))"
  by (simp add: new_curve_object_def rebase_def regroup_def)

lemma upd_object_rebase:
  assumes "\<And>ob. f (regroup n n' ob) = regroup n n' (g ob)"
  shows "upd_object h f (rebase n n' cs w) = rebase n n' cs (upd_object h g w)"
proof (cases "h < length (objects w)")
  case True
  then show ?thesis
    by (simp add: upd_object_def rebase_def map_update assms)
next
  case False
  then have "(objects w)[h := g (objects w ! h)] = objects w"
    and "(map (regroup n n') (objects w))[h := f (map (regroup n n') (objects w) ! h)]
           = map (regroup n n') (objects w)"
    by (simp_all add: list_update_beyond)
  then show ?thesis by (simp add: upd_object_def rebase_def)
qed

lemma setters_rebase [simp]:
  "set_name h nm (rebase n n' cs w) = rebase n n' cs (set_name h nm w)"
  "append_material h m (rebase n n' cs w) = rebase n n' cs (append_material h m w)"
  "set_rotation h r (rebase n n' cs w) = rebase n n' cs (set_rotation h r w)"
  "set_scale h s (rebase n n' cs w) = rebase n n' cs (set_scale h s w)"
  "add_modifier h md v (rebase n n' cs w) = rebase n n' cs (add_modifier h md v w)"
  unfolding set_name_def append_material_def set_rotation_def set_scale_def add_modifier_def
  by (rule upd_object_rebase, simp add: regroup_def)+


lemma remove1_shift:
  "remove1 SceneCollection (map (shift_coll n n') us)
     = map (shift_coll n n') (remove1 SceneCollection us)"
proof (induction us)
  case Nil
  show ?case by simp
next
  case (Cons u us)
  then show ?case by (cases u) simp_all
qed

lemma link_object_rebase [simp]:
  "link_object (shift_coll n n' c) h (rebase n n' cs w) = rebase n n' cs (link_object c h w)"
  unfolding link_object_def by (rule upd_object_rebase) (simp add: regroup_def)

lemma unlink_object_rebase [simp]:
  "unlink_object SceneCollection h (rebase n n' cs w)
     = rebase n n' cs (unlink_object SceneCollection h w)"
  unfolding unlink_object_def by (rule upd_object_rebase) (simp add: regroup_def remove1_shift)

lemma into_collection_rebase [simp]:
  "into_collection (shift_coll n n' c) h (rebase n n' cs w)
     = rebase n n' cs (into_collection c h w)"
  by (simp add: into_collection_def)

lemma add_sphere_rebase [simp]:
  "add_sphere radius loc nm mat (shift_coll n n' c) (rebase n n' cs w)
     = rebase n n' cs (add_sphere radius loc nm mat c w)"
  by (simp add: add_sphere_def split_beta)

lemma new_scene_collection_rebase [simp]:
  "snd (new_scene_collection nm (rebase n n' cs w))
     = rebase n n' (fresh_collection nm True cs) (snd (new_scene_collection nm w))"
  by (simp add: new_scene_collection_def collections_new_def children_link_def
      fresh_collection_def rebase_def)

lemma collections_new_rebase [simp]:
  "snd (collections_new nm (rebase n n' cs w))
     = rebase n n' (fresh_collection nm False cs) (snd (collections_new nm w))"
  by (simp add: collections_new_def fresh_collection_def rebase_def)




















lemma length_fresh_collection [simp]:
  "length (fresh_collection nm linked cs) = Suc (length cs)"
  by (simp add: fresh_collection_def)





















end
